theory Spec2Isabelle
  imports Main "HOL-Library.Word"
begin

section \<open>Open/R configuration validation (Config.cpp)\<close>

text \<open>
  The development embeds the configuration code of Open/R: the compilation of regular
  expression sets for an area (\<open>AreaConfiguration::compileRegexSet\<close>), the population of
  the per-area table (\<open>Config::populateAreaConfig\<close>) and the validation of the sections of
  the configuration (\<open>Config::checkKvStoreConfig\<close> and its siblings, run by
  \<open>Config::populateInternalDb\<close>).

  A C++ exception is a value: a function that can throw returns \<open>error + 'a\<close>, with
  \<open>Inl\<close> carrying the exception and its message.
\<close>

subsection \<open>Exceptions\<close>

datatype error =
    InvalidArgument string   \<comment> \<open>\<open>std::invalid_argument\<close>\<close>
  | OutOfRange string        \<comment> \<open>\<open>std::out_of_range\<close>\<close>
  | ConfigError string       \<comment> \<open>\<open>thrift::ConfigError\<close>\<close>
  | ForeignError string      \<comment> \<open>an exception of a library called by the code\<close>
  | CheckFailure string      \<comment> \<open>a failed \<open>CHECK\<close>: the process aborts\<close>

fun is_invalid_argument :: "error + 'a \<Rightarrow> bool" where
  "is_invalid_argument (Inl (InvalidArgument m)) = True"
| "is_invalid_argument r = False"

fun is_out_of_range :: "error + 'a \<Rightarrow> bool" where
  "is_out_of_range (Inl (OutOfRange m)) = True"
| "is_out_of_range r = False"

subsection \<open>The regular expression library\<close>

text \<open>
  \<open>compileRegexSet\<close> builds an \<open>re2::RE2::Set\<close>. RE2 is a library outside the repository;
  what the code relies on is modelled here for a fragment of its pattern syntax: literal
  7-bit characters, \<open>.\<close>, \<open>^\<close>, \<open>$\<close>, the repetitions \<open>*\<close>, \<open>+\<close>, \<open>?\<close> (also in their
  non-greedy forms \<open>*?\<close>, \<open>+?\<close>, \<open>??\<close>), alternation \<open>|\<close>, capturing groups \<open>( )\<close> and a
  backslash before a punctuation character of the syntax. A pattern that uses anything
  else (bracket expressions, counted repetition, \<open>(?\<close> groups and flags, backslash classes,
  bytes above 127) is outside the fragment: parsing it gives \<open>Unmodelled\<close> and every
  function that depends on it gives \<open>None\<close>.
\<close>

datatype regexp =
    EmptyMatch
  | Literal char
  | AnyCharNotNL
  | BeginText
  | EndText
  | Concat regexp regexp
  | Alternate regexp regexp
  | Star regexp
  | Plus regexp
  | Quest regexp

datatype re2_status =
    RepeatArgument | RepeatOp | MissingParen | UnexpectedParen | TrailingBackslash

datatype parse_result = Parsed regexp | ParseError re2_status | Unmodelled

text \<open>
  A text for each status. RE2 words its errors itself and appends an excerpt of the
  pattern; neither is modelled, and nothing below depends on the wording.
\<close>

fun status_text :: "re2_status \<Rightarrow> string" where
  "status_text RepeatArgument = ''no argument for repetition operator''"
| "status_text RepeatOp = ''bad repetition operator''"
| "status_text MissingParen = ''missing )''"
| "status_text UnexpectedParen = ''unexpected )''"
| "status_text TrailingBackslash = ''trailing backslash''"

definition is_meta :: "char \<Rightarrow> bool" where
  "is_meta c = (c \<in> set [CHR 0x5C, CHR ''.'', CHR ''+'', CHR ''*'', CHR ''?'', CHR ''('',
      CHR '')'', CHR ''|'', CHR ''['', CHR '']'', CHR ''{'', CHR ''}'', CHR ''^'', CHR ''$''])"

definition is_repeat_op :: "char \<Rightarrow> bool" where
  "is_repeat_op c = (c = CHR ''*'' \<or> c = CHR ''+'' \<or> c = CHR ''?'')"

definition repeat_of :: "char \<Rightarrow> regexp \<Rightarrow> regexp" where
  "repeat_of c r = (if c = CHR ''*'' then Star r else if c = CHR ''+'' then Plus r else Quest r)"

fun concat_of :: "regexp list \<Rightarrow> regexp" where
  "concat_of [] = EmptyMatch"
| "concat_of [r] = r"
| "concat_of (r # rs) = Concat r (concat_of rs)"

fun alt_of :: "regexp list \<Rightarrow> regexp" where
  "alt_of [] = EmptyMatch"
| "alt_of [r] = r"
| "alt_of (r # rs) = Alternate r (alt_of rs)"

text \<open>
  The parser reads the pattern once from left to right, as RE2's does, with a stack of open
  groups. A frame holds the finished alternatives of a group and the items of the
  alternative being read, both latest first. The \<open>mode\<close> remembers what the previous
  character was where the next one depends on it.
\<close>

type_synonym frame = "regexp list \<times> regexp list"

definition close_frame :: "frame \<Rightarrow> regexp" where
  "close_frame f = alt_of (rev (concat_of (rev (snd f)) # fst f))"

datatype mode = Normal | AfterRepeat | AfterNongreedy | AfterBackslash | AfterLeftParen

record parser =
  cur :: frame
  stack :: "frame list"
  mode :: mode

definition push_op :: "regexp \<Rightarrow> parser \<Rightarrow> parser" where
  "push_op r p = p\<lparr>cur := (fst (cur p), r # snd (cur p)), mode := Normal\<rparr>"

definition parse_step :: "parser \<Rightarrow> char \<Rightarrow> parse_result + parser" where
  "parse_step p c =
     (if mode p = AfterBackslash then
        (if is_meta c then Inr (push_op (Literal c) p) else Inl Unmodelled)
      else if mode p = AfterLeftParen \<and> c = CHR ''?'' then Inl Unmodelled
      else if mode p = AfterRepeat \<and> c = CHR ''?'' then Inr (p\<lparr>mode := AfterNongreedy\<rparr>)
      else if is_repeat_op c then
        (if mode p = AfterRepeat \<or> mode p = AfterNongreedy then Inl (ParseError RepeatOp)
         else (case snd (cur p) of
                 [] \<Rightarrow> Inl (ParseError RepeatArgument)
               | r # rs \<Rightarrow>
                   Inr (p\<lparr>cur := (fst (cur p), repeat_of c r # rs), mode := AfterRepeat\<rparr>)))
      else if c = CHR ''('' then
        Inr \<lparr>cur = ([], []), stack = cur p # stack p, mode = AfterLeftParen\<rparr>
      else if c = CHR ''|'' then
        Inr (p\<lparr>cur := (concat_of (rev (snd (cur p))) # fst (cur p), []), mode := Normal\<rparr>)
      else if c = CHR '')'' then
        (case stack p of
           [] \<Rightarrow> Inl (ParseError UnexpectedParen)
         | parent # rest \<Rightarrow>
             Inr \<lparr>cur = (fst parent, close_frame (cur p) # snd parent), stack = rest,
                  mode = Normal\<rparr>)
      else if c = CHR ''^'' then Inr (push_op BeginText p)
      else if c = CHR ''$'' then Inr (push_op EndText p)
      else if c = CHR ''.'' then Inr (push_op AnyCharNotNL p)
      else if c = CHR 0x5C then Inr (p\<lparr>mode := AfterBackslash\<rparr>)
      else if is_meta c \<or> 128 \<le> (of_char c :: nat) then Inl Unmodelled
      else Inr (push_op (Literal c) p))"

definition parse_finish :: "parser \<Rightarrow> parse_result" where
  "parse_finish p =
     (if mode p = AfterBackslash then ParseError TrailingBackslash
      else if stack p \<noteq> [] then ParseError MissingParen
      else Parsed (close_frame (cur p)))"

fun parse_loop :: "parser \<Rightarrow> string \<Rightarrow> parse_result" where
  "parse_loop p [] = parse_finish p"
| "parse_loop p (c # t) = (case parse_step p c of Inl r \<Rightarrow> r | Inr p' \<Rightarrow> parse_loop p' t)"

definition re2_parse :: "string \<Rightarrow> parse_result" where
  "re2_parse s = parse_loop \<lparr>cur = ([], []), stack = [], mode = Normal\<rparr> s"

text \<open>
  Matching. \<open>matches r cs text i j\<close> says that \<open>r\<close> matches the part of \<open>text\<close> from
  position \<open>i\<close> up to \<open>j\<close>; \<open>cs\<close> is the option \<open>case_sensitive\<close>. The text is read as a
  sequence of characters, one \<open>char\<close> each. \<open>^\<close> and \<open>$\<close> match at the two ends of the
  text only, and \<open>.\<close> matches any character but a line feed, as under RE2's default options.
  A repetition matches a chain of non-empty matches of its body, which is at most as long
  as the part matched.
\<close>

definition to_lower :: "char \<Rightarrow> char" where
  "to_lower c =
     (let n = (of_char c :: nat) in if 65 \<le> n \<and> n \<le> 90 then char_of (n + 32) else c)"

definition char_eq :: "bool \<Rightarrow> char \<Rightarrow> char \<Rightarrow> bool" where
  "char_eq cs c d = (if cs then c = d else to_lower c = to_lower d)"

primrec star_matches :: "(nat \<Rightarrow> nat \<Rightarrow> bool) \<Rightarrow> nat \<Rightarrow> nat \<Rightarrow> nat \<Rightarrow> bool" where
  "star_matches m 0 i j = (i = j)"
| "star_matches m (Suc n) i j =
     (i = j \<or> list_ex (\<lambda>k. m i k \<and> star_matches m n k j) [Suc i..<Suc j])"

primrec matches :: "regexp \<Rightarrow> bool \<Rightarrow> string \<Rightarrow> nat \<Rightarrow> nat \<Rightarrow> bool" where
  "matches EmptyMatch cs text i j = (i = j)"
| "matches (Literal c) cs text i j =
     (j = Suc i \<and> i < length text \<and> char_eq cs c (text ! i))"
| "matches AnyCharNotNL cs text i j =
     (j = Suc i \<and> i < length text \<and> text ! i \<noteq> CHR 0x0A)"
| "matches BeginText cs text i j = (i = j \<and> i = 0)"
| "matches EndText cs text i j = (i = j \<and> i = length text)"
| "matches (Concat r1 r2) cs text i j =
     list_ex (\<lambda>k. matches r1 cs text i k \<and> matches r2 cs text k j) [i..<Suc j]"
| "matches (Alternate r1 r2) cs text i j = (matches r1 cs text i j \<or> matches r2 cs text i j)"
| "matches (Star r) cs text i j = star_matches (\<lambda>a b. matches r cs text a b) (j - i) i j"
| "matches (Plus r) cs text i j =
     list_ex (\<lambda>k. matches r cs text i k
                \<and> star_matches (\<lambda>a b. matches r cs text a b) (j - k) k j) [i..<Suc j]"
| "matches (Quest r) cs text i j = (i = j \<or> matches r cs text i j)"

datatype anchor = UNANCHORED | ANCHOR_START | ANCHOR_BOTH

definition search :: "anchor \<Rightarrow> regexp \<Rightarrow> bool \<Rightarrow> string \<Rightarrow> bool" where
  "search a r cs text =
     (case a of
        ANCHOR_BOTH \<Rightarrow> matches r cs text 0 (length text)
      | ANCHOR_START \<Rightarrow> list_ex (\<lambda>j. matches r cs text 0 j) [0..<Suc (length text)]
      | UNANCHORED \<Rightarrow>
          list_ex (\<lambda>i. list_ex (\<lambda>j. matches r cs text i j) [i..<Suc (length text)])
            [0..<Suc (length text)])"

text \<open>
  \<open>RE2::Options\<close> (the one option the code sets) and \<open>RE2::Set\<close>: its options, its anchor
  and the patterns added so far, in the order of the calls of \<open>Add\<close>.
\<close>

record re2_options =
  case_sensitive :: bool

definition default_options :: re2_options where
  "default_options = \<lparr>case_sensitive = True\<rparr>"

record re2_set =
  set_options :: re2_options
  set_anchor :: anchor
  set_regexps :: "regexp list"

definition re2_set_new :: "re2_options \<Rightarrow> anchor \<Rightarrow> re2_set" where
  "re2_set_new opts a = \<lparr>set_options = opts, set_anchor = a, set_regexps = []\<rparr>"

text \<open>
  \<open>RE2::Set::Add\<close>: \<open>Inl\<close> is the return value -1 with the error text, \<open>Inr\<close> the set with
  the pattern added.
\<close>

definition re2_set_add :: "re2_set \<Rightarrow> string \<Rightarrow> (string + re2_set) option" where
  "re2_set_add s pattern =
     (case re2_parse pattern of
        Parsed r \<Rightarrow> Some (Inr (s\<lparr>set_regexps := set_regexps s @ [r]\<rparr>))
      | ParseError st \<Rightarrow> Some (Inl (status_text st))
      | Unmodelled \<Rightarrow> None)"

text \<open>
  \<open>RE2::Set::Compile\<close> fails only when the compiled program does not fit RE2's memory
  budget; storage is not modelled, so it succeeds.
\<close>

definition re2_set_compile :: "re2_set \<Rightarrow> bool" where
  "re2_set_compile s = True"

definition re2_set_match :: "re2_set \<Rightarrow> string \<Rightarrow> bool" where
  "re2_set_match s text =
     list_ex (\<lambda>r. search (set_anchor s) r (case_sensitive (set_options s)) text) (set_regexps s)"

subsection \<open>\<open>AreaConfiguration::compileRegexSet\<close>\<close>

text \<open>The loop over the strings: the first pattern that RE2 refuses throws.\<close>

fun add_strings :: "re2_set \<Rightarrow> string list \<Rightarrow> (error + re2_set) option" where
  "add_strings reSet [] = Some (Inr reSet)"
| "add_strings reSet (str # strs) =
     (case re2_set_add reSet str of
        None \<Rightarrow> None
      | Some (Inl regexErr) \<Rightarrow>
          Some (Inl (InvalidArgument
            (''Failed to add regex: '' @ str @ ''. Error: '' @ regexErr)))
      | Some (Inr reSet') \<Rightarrow> add_strings reSet' strs)"

definition unmatchable :: string where
  "unmatchable = ''a^''"

definition compileRegexSet :: "string list \<Rightarrow> (error + re2_set) option" where
  "compileRegexSet strings =
     (let regexOpts = default_options\<lparr>case_sensitive := False\<rparr>;
          reSet = re2_set_new regexOpts ANCHOR_BOTH
      in case (if strings = [] then re2_set_add reSet unmatchable else Some (Inr reSet)) of
           None \<Rightarrow> None
         | Some (Inl regexErr) \<Rightarrow>
             Some (Inl (CheckFailure
               (''Failed to add regex: '' @ unmatchable @ ''. Error: '' @ regexErr)))
         | Some (Inr reSet1) \<Rightarrow>
             (case add_strings reSet1 strings of
                None \<Rightarrow> None
              | Some (Inl e) \<Rightarrow> Some (Inl e)
              | Some (Inr reSet2) \<Rightarrow>
                  if re2_set_compile reSet2 then Some (Inr reSet2)
                  else Some (Inl (CheckFailure ''Regex compilation failed''))))"

text \<open>Compiling a list of strings and matching a text against the result, in one step.\<close>

definition regexSetMatches :: "string list \<Rightarrow> string \<Rightarrow> (error + bool) option" where
  "regexSetMatches strings text =
     map_option (map_sum id (\<lambda>reSet. re2_set_match reSet text)) (compileRegexSet strings)"


subsection \<open>The subscriber filter\<close>

text \<open>
  Modelled from the spec: the filter of a subscription (section 4.6, \<open>KeyFilter\<close>) and its
  matching rule; the code that evaluates filters is not among the sources. An entry
  matches if, combined per \<open>combinator\<close>, its key matches at least one pattern and/or its
  originator is in the set; an empty pattern set matches every key and an empty originator
  set matches every originator. A key pattern is matched as a prefix of the key (section 8).
  The verdict is \<open>None\<close> where a pattern is malformed or outside the modelled syntax.
\<close>

datatype combinator = AND | OR

record KeyFilter =
  keyPatterns :: "string list"
  originatorIds :: "string list"
  combinator :: combinator
  ignoreTtl :: bool
  redactValue :: bool

fun prefix_match_any :: "string list \<Rightarrow> string \<Rightarrow> bool option" where
  "prefix_match_any [] key = Some False"
| "prefix_match_any (p # ps) key =
     (case re2_parse p of
        Parsed r \<Rightarrow>
          map_option (\<lambda>b. search ANCHOR_START r True key \<or> b) (prefix_match_any ps key)
      | ParseError st \<Rightarrow> None
      | Unmodelled \<Rightarrow> None)"

definition key_matches :: "KeyFilter \<Rightarrow> string \<Rightarrow> bool option" where
  "key_matches f key =
     (if keyPatterns f = [] then Some True else prefix_match_any (keyPatterns f) key)"

definition originator_matches :: "KeyFilter \<Rightarrow> string \<Rightarrow> bool" where
  "originator_matches f originatorId =
     (originatorIds f = [] \<or> originatorId \<in> set (originatorIds f))"

definition filter_matches :: "KeyFilter \<Rightarrow> string \<Rightarrow> string \<Rightarrow> bool option" where
  "filter_matches f key originatorId =
     map_option
       (\<lambda>k. case combinator f of
               AND \<Rightarrow> k \<and> originator_matches f originatorId
             | OR \<Rightarrow> k \<or> originator_matches f originatorId)
       (key_matches f key)"

subsection \<open>Integers of the Thrift structures\<close>

type_synonym i32 = "32 word"
type_synonym i64 = "64 word"

subsection \<open>The KvStore section\<close>

text \<open>
  The structures are those of the Thrift interface; a field read through \<open>_ref()\<close> is a
  record field, an optional field is an \<open>option\<close>. Integers are compared as signed values
  (\<open>sint\<close>).
\<close>

record KvstoreFloodRate =
  flood_msg_per_sec :: i32
  flood_msg_burst_size :: i32

record KvstoreConfig =
  key_ttl_ms :: i64
  ttl_decrement_ms :: i64
  flood_rate :: "KvstoreFloodRate option"
  set_leaf_node :: "bool option"
  key_prefix_filters :: "string list option"
  key_originator_id_filters :: "string list option"
  enable_flood_optimization :: "bool option"
  is_flood_root :: "bool option"

text \<open>
  The constants of \<open>Constants.h\<close> that the code reads. Their declarations are not part of
  the sources at hand, so they are parameters of the model.
\<close>

record Constants =
  kTtlInfinity :: i64
  kDefaultArea :: string

text \<open>\<open>Config::checkKvStoreConfig\<close>: the three checks in the order of the code.\<close>

definition checkKvStoreConfig :: "Constants \<Rightarrow> KvstoreConfig \<Rightarrow> error + unit" where
  "checkKvStoreConfig K kvStoreConf =
     (case flood_rate kvStoreConf of
        Some floodRate \<Rightarrow>
          if sint (flood_msg_per_sec floodRate) \<le> 0
          then Inl (OutOfRange ''kvstore flood_msg_per_sec should be > 0'')
          else if sint (flood_msg_burst_size floodRate) \<le> 0
          then Inl (OutOfRange ''kvstore flood_msg_burst_size should be > 0'')
          else if key_ttl_ms kvStoreConf = kTtlInfinity K
          then Inl (OutOfRange ''kvstore key_ttl_ms should be a finite number'')
          else Inr ()
      | None \<Rightarrow>
          if key_ttl_ms kvStoreConf = kTtlInfinity K
          then Inl (OutOfRange ''kvstore key_ttl_ms should be a finite number'')
          else Inr ())"

text \<open>The messages of the two flood-rate checks.\<close>

definition flood_rate_errors :: "error set" where
  "flood_rate_errors =
     {OutOfRange ''kvstore flood_msg_per_sec should be > 0'',
      OutOfRange ''kvstore flood_msg_burst_size should be > 0''}"

subsection \<open>Rendering numbers in messages\<close>

text \<open>\<open>fmt::format\<close> prints an integer in decimal.\<close>

function show_nat :: "nat \<Rightarrow> string" where
  "show_nat n =
     (if n < 10 then [char_of (48 + n)] else show_nat (n div 10) @ [char_of (48 + n mod 10)])"
  by pat_completeness auto
termination
  by (relation "measure id") auto

definition show_int :: "int \<Rightarrow> string" where
  "show_int i = (if i < 0 then CHR ''-'' # show_nat (nat (- i)) else show_nat (nat i))"

subsection \<open>The structures of the configuration\<close>

text \<open>
  The Thrift structures of \<open>OpenrConfig.thrift\<close>, with the fields that the code reads or
  writes. Two structures with a field of the same name get a prefix on the later one.
\<close>

record LabelRange =
  start_label :: i32
  end_label :: i32

datatype SegmentRoutingNodeLabelType = AUTO | STATIC_LABEL

datatype SegmentRoutingAdjLabelType = DISABLED | AUTO_IFINDEX

record SegmentRoutingNodeLabel =
  sr_node_label_type :: SegmentRoutingNodeLabelType
  node_segment_label_range :: "LabelRange option"
  node_segment_label :: "i32 option"

record SegmentRoutingAdjLabel =
  sr_adj_label_type :: SegmentRoutingAdjLabelType
  adj_label_range :: "LabelRange option"

record MplsLabelRanges =
  v4 :: LabelRange
  v6 :: LabelRange

record AreaConfig =
  area_id :: string
  neighbor_regexes :: "string list"
  include_interface_regexes :: "string list"
  exclude_interface_regexes :: "string list"
  redistribute_interface_regexes :: "string list"
  import_policy_name :: "string option"
  area_sr_node_label :: "SegmentRoutingNodeLabel option"
  sr_adj_label :: "SegmentRoutingAdjLabel option"
  prepend_label_ranges :: "MplsLabelRanges option"

text \<open>A default-constructed \<open>thrift::AreaConfig\<close>: empty strings and lists, nothing optional set.\<close>

definition empty_AreaConfig :: AreaConfig where
  "empty_AreaConfig =
     \<lparr>area_id = [], neighbor_regexes = [], include_interface_regexes = [],
      exclude_interface_regexes = [], redistribute_interface_regexes = [],
      import_policy_name = None, area_sr_node_label = None, sr_adj_label = None,
      prepend_label_ranges = None\<rparr>"

text \<open>The routing policy: only the names of the objects of the propagation policy are read.\<close>

record Filters =
  objects :: "string list"

record PolicyFilters =
  routePropagationPolicy :: "Filters option"

record PolicyConfig =
  filters :: PolicyFilters

record DecisionConfig =
  debounce_min_ms :: i32
  debounce_max_ms :: i32

record StepDetectorConfig =
  fast_window_size :: i64
  slow_window_size :: i64
  lower_threshold :: i32
  upper_threshold :: i32

record SparkConfig =
  neighbor_discovery_port :: i32
  hello_time_s :: i32
  fastinit_hello_time_ms :: i32
  keepalive_time_s :: i32
  hold_time_s :: i32
  graceful_restart_time_s :: i32
  step_detector_conf :: StepDetectorConfig

record MonitorConfig =
  max_event_log :: i32

record LinkMonitorConfig =
  linkflap_initial_backoff_ms :: i32
  linkflap_max_backoff_ms :: i32

record SegmentRoutingConfig =
  sr_prepend_label_ranges :: "MplsLabelRanges option"
  sr_sr_adj_label :: "SegmentRoutingAdjLabel option"

datatype PrefixAllocationMode =
  DYNAMIC_LEAF_NODE | DYNAMIC_ROOT_NODE | STATIC | UnnamedAllocationMode

record PrefixAllocationConfig =
  prefix_allocation_mode :: PrefixAllocationMode
  seed_prefix :: "string option"
  allocate_prefix_len :: "i32 option"

record VipServiceConfig =
  ingress_policy :: "string option"

datatype AddPath = NONE_PATH | RECEIVE | SEND | BOTH

record BgpPeer =
  peer_addr :: "string option"
  add_path :: "AddPath option"

record BgpConfig =
  peers :: "BgpPeer list"

record BgpRouteTranslationConfig =
  disable_legacy_translation :: bool
  enable_openr_to_bgp :: bool
  enable_bgp_to_openr :: bool

record ThriftServerConfig =
  enable_secure_thrift_server :: bool
  x509_ca_path :: "string option"
  x509_cert_path :: "string option"
  x509_key_path :: "string option"
  ecc_curve_name :: "string option"

record WatchdogConfig =
  interval_s :: i32
  thread_timeout_s :: i32
  max_memory_mb :: i32

datatype PrefixForwardingType = IP | SR_MPLS | UnnamedForwardingType

datatype PrefixForwardingAlgorithm = SP_ECMP | KSP2_ED_ECMP | UnnamedForwardingAlgorithm

record OpenrConfig =
  node_name :: string
  areas :: "AreaConfig list"
  area_policies :: "PolicyConfig option"
  prefix_forwarding_type :: PrefixForwardingType
  prefix_forwarding_algorithm :: PrefixForwardingAlgorithm
  ip_tos :: "i32 option"
  enable_v4 :: "bool option"
  enable_segment_routing :: "bool option"
  enable_bgp_peering :: "bool option"
  enable_vip_service :: "bool option"
  enable_watchdog :: "bool option"
  enable_prefix_allocation :: "bool option"
  watchdog_config :: "WatchdogConfig option"
  route_delete_delay_ms :: i64
  kvstore_config :: KvstoreConfig
  decision_config :: DecisionConfig
  spark_config :: SparkConfig
  monitor_config :: MonitorConfig
  link_monitor_config :: LinkMonitorConfig
  segment_routing_config :: "SegmentRoutingConfig option"
  prefix_allocation_config :: "PrefixAllocationConfig option"
  vip_service_config :: "VipServiceConfig option"
  bgp_config :: "BgpConfig option"
  bgp_translation_config :: "BgpRouteTranslationConfig option"
  thrift_server :: ThriftServerConfig
  eor_time_s :: "i32 option"

subsection \<open>What the code calls outside of Config.cpp\<close>

text \<open>
  Addresses are \<open>folly::IPAddress\<close> values; a network is an address and a prefix length.
\<close>

datatype IPAddress = IPv4 "32 word" | IPv6 "128 word"

fun isV4 :: "IPAddress \<Rightarrow> bool" where
  "isV4 (IPv4 a) = True"
| "isV4 (IPv6 a) = False"

fun isV6 :: "IPAddress \<Rightarrow> bool" where
  "isV6 (IPv4 a) = False"
| "isV6 (IPv6 a) = True"

type_synonym CIDRNetwork = "IPAddress \<times> 8 word"

type_synonym PrefixAllocationParams = "CIDRNetwork \<times> 8 word"

text \<open>
  Functions that the code calls and that are defined elsewhere (the helpers of the common
  utilities, the file system, the parsers of addresses, the JSON deserialiser, and the
  default value of a Thrift structure) are parameters of the model, collected in an
  environment. A function that can throw returns \<open>error + 'a\<close>.
\<close>

record Env =
  isLabelRangeValid :: "LabelRange \<Rightarrow> bool"
  isMplsLabelValid :: "i32 \<Rightarrow> bool"
  fs_exists :: "string \<Rightarrow> bool"
  createNetwork :: "string \<Rightarrow> error + CIDRNetwork"
  ipAddress :: "string \<Rightarrow> error + IPAddress"
  isLoopback :: "IPAddress \<Rightarrow> bool"
  readFileToString :: "string \<Rightarrow> string option"
  deserialize :: "string \<Rightarrow> string + OpenrConfig"
  defaultBgpRouteTranslationConfig :: BgpRouteTranslationConfig

subsection \<open>The \<open>Config\<close> object\<close>

text \<open>
  \<open>AreaConfiguration\<close> holds the compiled pattern sets of an area. Its constructor is
  declared in \<open>Config.h\<close>, which is not among the sources: it is taken to compile the four
  lists of patterns of the area with \<open>compileRegexSet\<close>, the neighbours first.
\<close>

record AreaConfiguration =
  m_areaId :: string
  m_neighborRegexSet :: re2_set
  m_interfaceIncludeRegexSet :: re2_set
  m_interfaceExcludeRegexSet :: re2_set
  m_interfaceRedistRegexSet :: re2_set

definition new_AreaConfiguration :: "AreaConfig \<Rightarrow> (error + AreaConfiguration) option" where
  "new_AreaConfiguration area =
     (case compileRegexSet (neighbor_regexes area) of
        None \<Rightarrow> None
      | Some (Inl e) \<Rightarrow> Some (Inl e)
      | Some (Inr nbr) \<Rightarrow>
     (case compileRegexSet (include_interface_regexes area) of
        None \<Rightarrow> None
      | Some (Inl e) \<Rightarrow> Some (Inl e)
      | Some (Inr incl) \<Rightarrow>
     (case compileRegexSet (exclude_interface_regexes area) of
        None \<Rightarrow> None
      | Some (Inl e) \<Rightarrow> Some (Inl e)
      | Some (Inr excl) \<Rightarrow>
     (case compileRegexSet (redistribute_interface_regexes area) of
        None \<Rightarrow> None
      | Some (Inl e) \<Rightarrow> Some (Inl e)
      | Some (Inr redist) \<Rightarrow>
          Some (Inr \<lparr>m_areaId = area_id area, m_neighborRegexSet = nbr,
                     m_interfaceIncludeRegexSet = incl, m_interfaceExcludeRegexSet = excl,
                     m_interfaceRedistRegexSet = redist\<rparr>)))))"

text \<open>
  The members of \<open>Config\<close> that the constructor fills; a member \<open>x_\<close> of the class is the
  field \<open>m_x\<close>. \<open>m_areaConfigs\<close> is a map from area ids to area configurations, kept as a
  list of pairs with distinct keys in the order of insertion.
\<close>

record Config =
  m_config :: OpenrConfig
  m_areaConfigs :: "(string \<times> AreaConfiguration) list"
  m_prefixAllocationParams :: "PrefixAllocationParams option"

text \<open>
  The accessors of \<open>Config.h\<close> read the field that the messages of the code name
  (\<open>enable_bgp_peering = true, but bgp_config is empty\<close>); an unset flag is off.
\<close>

definition isV4Enabled :: "OpenrConfig \<Rightarrow> bool" where
  "isV4Enabled c = (enable_v4 c = Some True)"

definition isSegmentRoutingEnabled :: "OpenrConfig \<Rightarrow> bool" where
  "isSegmentRoutingEnabled c = (enable_segment_routing c = Some True)"

definition isBgpPeeringEnabled :: "OpenrConfig \<Rightarrow> bool" where
  "isBgpPeeringEnabled c = (enable_bgp_peering c = Some True)"

definition isVipServiceEnabled :: "OpenrConfig \<Rightarrow> bool" where
  "isVipServiceEnabled c = (enable_vip_service c = Some True)"

definition isWatchdogEnabled :: "OpenrConfig \<Rightarrow> bool" where
  "isWatchdogEnabled c = (enable_watchdog c = Some True)"

definition isPrefixAllocationEnabled :: "OpenrConfig \<Rightarrow> bool" where
  "isPrefixAllocationEnabled c = (enable_prefix_allocation c = Some True)"

definition isSecureThriftServerEnabled :: "OpenrConfig \<Rightarrow> bool" where
  "isSecureThriftServerEnabled c = enable_secure_thrift_server (thrift_server c)"

definition getAreaPolicies :: "OpenrConfig \<Rightarrow> PolicyConfig option" where
  "getAreaPolicies c = area_policies c"

text \<open>The propagation policy, as \<open>populateAreaConfig\<close> and \<open>checkVipServiceConfig\<close> read it.\<close>

definition propagationPolicy :: "OpenrConfig \<Rightarrow> Filters option" where
  "propagationPolicy c =
     (case getAreaPolicies c of
        Some areaPolicies \<Rightarrow> routePropagationPolicy (filters areaPolicies)
      | None \<Rightarrow> None)"

definition policy_defined :: "Filters option \<Rightarrow> string \<Rightarrow> bool" where
  "policy_defined policy name =
     (case policy of None \<Rightarrow> False | Some p \<Rightarrow> name \<in> set (objects p))"

subsection \<open>The checks of an area\<close>

text \<open>The first error of a sequence of checks that do not change the object.\<close>

fun first_error :: "(error + unit) list \<Rightarrow> error + unit" where
  "first_error [] = Inr ()"
| "first_error (Inl e # rs) = Inl e"
| "first_error (Inr u # rs) = first_error rs"

definition show_i32 :: "i32 \<Rightarrow> string" where
  "show_i32 w = show_int (sint w)"

definition show_i64 :: "i64 \<Rightarrow> string" where
  "show_i64 w = show_int (sint w)"

definition show_u8 :: "8 word \<Rightarrow> string" where
  "show_u8 w = show_nat (unat w)"

definition show_range :: "LabelRange \<Rightarrow> string" where
  "show_range r = ''['' @ show_i32 (start_label r) @ '', '' @ show_i32 (end_label r) @ '']''"

definition checkPrependLabelConfig :: "Env \<Rightarrow> AreaConfig \<Rightarrow> error + unit" where
  "checkPrependLabelConfig env areaConf =
     (case prepend_label_ranges areaConf of
        None \<Rightarrow> Inr ()
      | Some ranges \<Rightarrow>
          if \<not> isLabelRangeValid env (v4 ranges) then
            Inl (InvalidArgument (''v4: prepend label range '' @ show_range (v4 ranges)
              @ '' is invalid for area id '' @ area_id areaConf))
          else if \<not> isLabelRangeValid env (v6 ranges) then
            Inl (InvalidArgument (''v6: prepend label range '' @ show_range (v6 ranges)
              @ '' is invalid for area id '' @ area_id areaConf))
          else Inr ())"

definition checkAdjacencyLabelConfig :: "Env \<Rightarrow> AreaConfig \<Rightarrow> error + unit" where
  "checkAdjacencyLabelConfig env areaConf =
     (case sr_adj_label areaConf of
        None \<Rightarrow> Inr ()
      | Some adj \<Rightarrow>
          if sr_adj_label_type adj = AUTO_IFINDEX then
            (case adj_label_range adj of
               None \<Rightarrow>
                 Inl (InvalidArgument
                   (''label range for adjacency labels is not configured for area id ''
                      @ area_id areaConf))
             | Some label_range \<Rightarrow>
                 if \<not> isLabelRangeValid env label_range then
                   Inl (InvalidArgument (''label range '' @ show_range label_range
                     @ '' for adjacency labels is invalid for area id '' @ area_id areaConf))
                 else Inr ())
          else Inr ())"

definition checkNodeSegmentLabelConfig :: "Env \<Rightarrow> AreaConfig \<Rightarrow> error + unit" where
  "checkNodeSegmentLabelConfig env areaConf =
     (case area_sr_node_label areaConf of
        None \<Rightarrow> Inr ()
      | Some srNodeConfig \<Rightarrow>
          if sr_node_label_type srNodeConfig = AUTO then
            (case node_segment_label_range srNodeConfig of
               None \<Rightarrow>
                 Inl (InvalidArgument
                   (''node segment label range is not configured for area id: ''
                      @ area_id areaConf))
             | Some label_range \<Rightarrow>
                 if \<not> isLabelRangeValid env label_range then
                   Inl (InvalidArgument (''node segment label range '' @ show_range label_range
                     @ '' is invalid for area config id: '' @ area_id areaConf))
                 else Inr ())
          else
            (case node_segment_label srNodeConfig of
               None \<Rightarrow>
                 Inl (InvalidArgument
                   (''static node segment label is not configured for area config id: ''
                      @ area_id areaConf))
             | Some label \<Rightarrow>
                 if \<not> isMplsLabelValid env label then
                   Inl (InvalidArgument (''node segment label '' @ show_i32 label
                     @ '' is invalid for area config id: '' @ area_id areaConf))
                 else Inr ()))"

subsection \<open>\<open>Config::populateAreaConfig\<close>\<close>

text \<open>
  The body of the loop over the areas, for one area: the default of the neighbour patterns,
  the import policy, the insertion into \<open>m_areaConfigs\<close> and the three label checks.
  \<open>emplace\<close> constructs the \<open>AreaConfiguration\<close> from the area before it looks the key
  up, so an exception of the constructor comes before the test for a duplicate.
\<close>

definition match_all_default :: "AreaConfig \<Rightarrow> AreaConfig" where
  "match_all_default areaConf =
     (if neighbor_regexes areaConf = [] then areaConf\<lparr>neighbor_regexes := [''.*'']\<rparr>
      else areaConf)"

definition checkImportPolicy :: "Filters option \<Rightarrow> AreaConfig \<Rightarrow> error + unit" where
  "checkImportPolicy policy areaConf =
     (case import_policy_name areaConf of
        Some importPolicyName \<Rightarrow>
          if \<not> policy_defined policy importPolicyName then
            Inl (InvalidArgument
              (''No area policy definition found for '' @ importPolicyName))
          else Inr ()
      | None \<Rightarrow> Inr ())"

definition populateArea ::
  "Env \<Rightarrow> Filters option \<Rightarrow> (string \<times> AreaConfiguration) list \<Rightarrow> AreaConfig
     \<Rightarrow> (error + AreaConfig \<times> (string \<times> AreaConfiguration) list) option" where
  "populateArea env policy areaConfigs area =
     (let areaConf = match_all_default area in
      case checkImportPolicy policy areaConf of
        Inl e \<Rightarrow> Some (Inl e)
      | Inr u0 \<Rightarrow>
        (case new_AreaConfiguration areaConf of
           None \<Rightarrow> None
         | Some (Inl e) \<Rightarrow> Some (Inl e)
         | Some (Inr areaConfiguration) \<Rightarrow>
             if area_id areaConf \<in> fst ` set areaConfigs then
               Some (Inl (InvalidArgument
                 (''Duplicate area config id: '' @ area_id areaConf)))
             else
               (case first_error
                       [checkNodeSegmentLabelConfig env areaConf,
                        checkAdjacencyLabelConfig env areaConf,
                        checkPrependLabelConfig env areaConf] of
                  Inl e \<Rightarrow> Some (Inl e)
                | Inr u \<Rightarrow>
                    Some (Inr (areaConf,
                      areaConfigs @ [(area_id areaConf, areaConfiguration)])))))"

text \<open>
  The loop: \<open>visited\<close> holds the areas already visited, as the loop has rewritten them.
\<close>

fun populateAreas ::
  "Env \<Rightarrow> Filters option \<Rightarrow> AreaConfig list \<Rightarrow> AreaConfig list
     \<Rightarrow> (string \<times> AreaConfiguration) list
     \<Rightarrow> (error + AreaConfig list \<times> (string \<times> AreaConfiguration) list) option" where
  "populateAreas env policy [] visited areaConfigs = Some (Inr (visited, areaConfigs))"
| "populateAreas env policy (area # rest) visited areaConfigs =
     (case populateArea env policy areaConfigs area of
        None \<Rightarrow> None
      | Some (Inl e) \<Rightarrow> Some (Inl e)
      | Some (Inr (areaConf, areaConfigs')) \<Rightarrow>
          populateAreas env policy rest (visited @ [areaConf]) areaConfigs')"

definition with_default_area :: "Constants \<Rightarrow> OpenrConfig \<Rightarrow> OpenrConfig" where
  "with_default_area K c =
     (if areas c = [] then c\<lparr>areas := [empty_AreaConfig\<lparr>area_id := kDefaultArea K\<rparr>]\<rparr>
      else c)"

definition populateAreaConfig :: "Env \<Rightarrow> Constants \<Rightarrow> Config \<Rightarrow> (error + Config) option" where
  "populateAreaConfig env K this =
     (let c = with_default_area K (m_config this) in
      case populateAreas env (propagationPolicy c) (areas c) [] (m_areaConfigs this) of
        None \<Rightarrow> None
      | Some (Inl e) \<Rightarrow> Some (Inl e)
      | Some (Inr (areas', areaConfigs')) \<Rightarrow>
          Some (Inr (this\<lparr>m_config := c\<lparr>areas := areas'\<rparr>, m_areaConfigs := areaConfigs'\<rparr>)))"

subsection \<open>The checks of the sections\<close>

definition checkDecisionConfig :: "DecisionConfig \<Rightarrow> error + unit" where
  "checkDecisionConfig decisionConf =
     (if sint (debounce_min_ms decisionConf) > sint (debounce_max_ms decisionConf) then
        Inl (InvalidArgument (''decision_config.debounce_min_ms (''
          @ show_i32 (debounce_min_ms decisionConf)
          @ '') should be <= decision_config.debounce_max_ms (''
          @ show_i32 (debounce_max_ms decisionConf) @ '')''))
      else Inr ())"

text \<open>
  \<open>checkSparkConfig\<close>. The two products are computed in 32 bits; where C++ leaves the
  overflow of a signed product undefined, the model wraps around.
\<close>

definition step_detector_thresholds_bad :: "StepDetectorConfig \<Rightarrow> bool" where
  "step_detector_thresholds_bad sd =
     (sint (lower_threshold sd) < 0 \<or> sint (upper_threshold sd) < 0
      \<or> sint (lower_threshold sd) \<ge> sint (upper_threshold sd))"

definition checkSparkConfig :: "SparkConfig \<Rightarrow> error + unit" where
  "checkSparkConfig sparkConfig =
     (if sint (neighbor_discovery_port sparkConfig) \<le> 0
         \<or> sint (neighbor_discovery_port sparkConfig) > 65535 then
        Inl (OutOfRange (''neighbor_discovery_port (''
          @ show_i32 (neighbor_discovery_port sparkConfig)
          @ '') should be in range [0, 65535]''))
      else if sint (hello_time_s sparkConfig) \<le> 0 then
        Inl (OutOfRange (''hello_time_s ('' @ show_i32 (hello_time_s sparkConfig)
          @ '') should be > 0''))
      else if sint (fastinit_hello_time_ms sparkConfig) \<le> 0 then
        Inl (OutOfRange (''fastinit_hello_time_ms (''
          @ show_i32 (fastinit_hello_time_ms sparkConfig) @ '') should be > 0''))
      else if sint (fastinit_hello_time_ms sparkConfig)
                > sint (1000 * hello_time_s sparkConfig) then
        Inl (InvalidArgument (''fastinit_hello_time_ms (''
          @ show_i32 (fastinit_hello_time_ms sparkConfig)
          @ '') should be <= hold_time_s ('' @ show_i32 (hello_time_s sparkConfig)
          @ '') * 1000''))
      else if sint (keepalive_time_s sparkConfig) \<le> 0 then
        Inl (OutOfRange (''keepalive_time_s ('' @ show_i32 (keepalive_time_s sparkConfig)
          @ '') should be > 0''))
      else if sint (keepalive_time_s sparkConfig) > sint (hold_time_s sparkConfig) then
        Inl (InvalidArgument (''keepalive_time_s (''
          @ show_i32 (keepalive_time_s sparkConfig)
          @ '') should be <= hold_time_s ('' @ show_i32 (hold_time_s sparkConfig) @ '')''))
      else if sint (hold_time_s sparkConfig) \<le> 0 then
        Inl (OutOfRange (''hold_time_s ('' @ show_i32 (hold_time_s sparkConfig)
          @ '') should be > 0''))
      else if sint (graceful_restart_time_s sparkConfig) \<le> 0 then
        Inl (OutOfRange (''graceful_restart_time_s (''
          @ show_i32 (graceful_restart_time_s sparkConfig) @ '') should be > 0''))
      else if sint (graceful_restart_time_s sparkConfig)
                < sint (3 * keepalive_time_s sparkConfig) then
        Inl (InvalidArgument (''graceful_restart_time_s (''
          @ show_i32 (graceful_restart_time_s sparkConfig)
          @ '') should be >= 3 * keepalive_time_s (''
          @ show_i32 (keepalive_time_s sparkConfig) @ '')''))
      else if step_detector_thresholds_bad (step_detector_conf sparkConfig) then
        Inl (InvalidArgument (''step_detector_conf.lower_threshold (''
          @ show_i32 (lower_threshold (step_detector_conf sparkConfig))
          @ '') should be < step_detector_conf.upper_threshold (''
          @ show_i32 (upper_threshold (step_detector_conf sparkConfig))
          @ ''), and they should be >= 0''))
      else if sint (fast_window_size (step_detector_conf sparkConfig)) < 0
          \<or> sint (slow_window_size (step_detector_conf sparkConfig)) < 0
          \<or> sint (fast_window_size (step_detector_conf sparkConfig))
               > sint (slow_window_size (step_detector_conf sparkConfig)) then
        Inl (InvalidArgument (''step_detector_conf.fast_window_size (''
          @ show_i64 (fast_window_size (step_detector_conf sparkConfig))
          @ '') should be <= step_detector_conf.slow_window_size (''
          @ show_i64 (slow_window_size (step_detector_conf sparkConfig))
          @ ''), and they should be >= 0''))
      else if step_detector_thresholds_bad (step_detector_conf sparkConfig) then
        Inl (InvalidArgument (''step_detector_conf.lower_threshold (''
          @ show_i32 (lower_threshold (step_detector_conf sparkConfig))
          @ '') should be < step_detector_conf.upper_threshold (''
          @ show_i32 (upper_threshold (step_detector_conf sparkConfig)) @ '')''))
      else Inr ())"

definition checkMonitorConfig :: "MonitorConfig \<Rightarrow> error + unit" where
  "checkMonitorConfig monitorConfig =
     (if sint (max_event_log monitorConfig) < 0 then
        Inl (OutOfRange (''monitor_max_event_log ('' @ show_i32 (max_event_log monitorConfig)
          @ '') should be >= 0''))
      else Inr ())"

definition checkLinkMonitorConfig :: "LinkMonitorConfig \<Rightarrow> error + unit" where
  "checkLinkMonitorConfig lmConf =
     (if sint (linkflap_initial_backoff_ms lmConf) < 0 then
        Inl (OutOfRange (''linkflap_initial_backoff_ms (''
          @ show_i32 (linkflap_initial_backoff_ms lmConf) @ '') should be >= 0''))
      else if sint (linkflap_max_backoff_ms lmConf) < 0 then
        Inl (OutOfRange (''linkflap_max_backoff_ms (''
          @ show_i32 (linkflap_max_backoff_ms lmConf) @ '') should be >= 0''))
      else if sint (linkflap_initial_backoff_ms lmConf)
                > sint (linkflap_max_backoff_ms lmConf) then
        Inl (OutOfRange (''linkflap_initial_backoff_ms (''
          @ show_i32 (linkflap_initial_backoff_ms lmConf)
          @ '') should be < linkflap_max_backoff_ms (''
          @ show_i32 (linkflap_max_backoff_ms lmConf) @ '')''))
      else Inr ())"

definition checkSegmentRoutingConfig :: "Env \<Rightarrow> OpenrConfig \<Rightarrow> error + unit" where
  "checkSegmentRoutingConfig env c =
     (case segment_routing_config c of
        None \<Rightarrow> Inr ()
      | Some srConfig \<Rightarrow>
          (case (case sr_prepend_label_ranges srConfig of
                   None \<Rightarrow> Inr ()
                 | Some ranges \<Rightarrow>
                     if \<not> isLabelRangeValid env (v4 ranges) then
                       Inl (InvalidArgument (''v4: prepend label range ''
                         @ show_range (v4 ranges) @ '' is invalid''))
                     else if \<not> isLabelRangeValid env (v6 ranges) then
                       Inl (InvalidArgument (''v6: prepend label range ''
                         @ show_range (v6 ranges) @ '' is invalid''))
                     else Inr ()) of
             Inl e \<Rightarrow> Inl e
           | Inr u \<Rightarrow>
               (case sr_sr_adj_label srConfig of
                  None \<Rightarrow> Inr ()
                | Some adj \<Rightarrow>
                    if sr_adj_label_type adj = AUTO_IFINDEX then
                      (case adj_label_range adj of
                         None \<Rightarrow>
                           Inl (InvalidArgument
                             ''label range for adjacency labels is not configured'')
                       | Some label_range \<Rightarrow>
                           if \<not> isLabelRangeValid env label_range then
                             Inl (InvalidArgument (''label range '' @ show_range label_range
                               @ '' for adjacency labels is invalid''))
                           else Inr ())
                    else Inr ())))"

definition createPrefixAllocationParams ::
  "Env \<Rightarrow> string \<Rightarrow> 8 word \<Rightarrow> error + PrefixAllocationParams" where
  "createPrefixAllocationParams env seedPfxStr allocationPfxLen =
     (if seedPfxStr = [] \<or> allocationPfxLen = 0 then
        Inl (InvalidArgument ''seed_prefix and allocate_prefix_len must be filled.'')
      else
        (case createNetwork env seedPfxStr of
           Inl e \<Rightarrow> Inl e
         | Inr seedPfx \<Rightarrow>
             if isV4 (fst seedPfx)
                \<and> (allocationPfxLen \<le> snd seedPfx \<or> allocationPfxLen > 32) then
               Inl (OutOfRange (''invalid allocate_prefix_len ('' @ show_u8 allocationPfxLen
                 @ ''), valid range = ('' @ show_u8 (snd seedPfx) @ '', 32]''))
             else if isV6 (fst seedPfx)
                \<and> (allocationPfxLen \<le> snd seedPfx \<or> allocationPfxLen > 128) then
               Inl (OutOfRange (''invalid allocate_prefix_len ('' @ show_u8 allocationPfxLen
                 @ ''), valid range = ('' @ show_u8 (snd seedPfx) @ '', 128]''))
             else Inr (seedPfx, allocationPfxLen)))"

text \<open>
  \<open>checkPrefixAllocationConfig\<close> stores the parameters in \<open>m_prefixAllocationParams\<close>. The
  length read from the configuration is a 32-bit integer; passing it to
  \<open>createPrefixAllocationParams\<close> keeps its low 8 bits.
\<close>

definition checkPrefixAllocationConfig :: "Env \<Rightarrow> Config \<Rightarrow> error + Config" where
  "checkPrefixAllocationConfig env this =
     (case prefix_allocation_config (m_config this) of
        None \<Rightarrow>
          Inl (InvalidArgument
            ''enable_prefix_allocation = true, but prefix_allocation_config is empty'')
      | Some paConf \<Rightarrow>
          if prefix_allocation_mode paConf = UnnamedAllocationMode then
            Inl (InvalidArgument ''invalid prefix_allocation_mode'')
          else
            (let seedPrefix = (case seed_prefix paConf of Some s \<Rightarrow> s | None \<Rightarrow> []);
                 allocatePfxLen = (case allocate_prefix_len paConf of Some n \<Rightarrow> n | None \<Rightarrow> 0)
             in case prefix_allocation_mode paConf of
                  DYNAMIC_ROOT_NODE \<Rightarrow>
                    (case createPrefixAllocationParams env seedPrefix (ucast allocatePfxLen) of
                       Inl e \<Rightarrow> Inl e
                     | Inr params \<Rightarrow>
                         if isV4 (fst (fst params)) \<and> \<not> isV4Enabled (m_config this) then
                           Inl (InvalidArgument
                             ''v4 seed_prefix detected, but enable_v4 = false'')
                         else Inr (this\<lparr>m_prefixAllocationParams := Some params\<rparr>))
                | UnnamedAllocationMode \<Rightarrow> Inr this
                | other \<Rightarrow>
                    if seedPrefix \<noteq> [] \<or> sint allocatePfxLen > 0 then
                      Inl (InvalidArgument
                        ''prefix_allocation_mode != DYNAMIC_ROOT_NODE, seed_prefix and allocate_prefix_len must be empty'')
                    else Inr this))"

definition checkVipServiceConfig :: "OpenrConfig \<Rightarrow> error + unit" where
  "checkVipServiceConfig c =
     (if isVipServiceEnabled c then
        (case vip_service_config c of
           None \<Rightarrow>
             Inl (InvalidArgument ''enable_vip_service = true, but vip_service_config is empty'')
         | Some vip \<Rightarrow>
             (case ingress_policy vip of
                None \<Rightarrow> Inr ()
              | Some policy \<Rightarrow>
                  if \<not> policy_defined (propagationPolicy c) policy then
                    Inl (InvalidArgument (''No area policy definition found for '' @ policy))
                  else Inr ()))
      else Inr ())"

text \<open>The loop of \<open>checkBgpPeeringConfig\<close> over the peers.\<close>

fun checkBgpPeers :: "Env \<Rightarrow> bool \<Rightarrow> BgpPeer list \<Rightarrow> error + unit" where
  "checkBgpPeers env segmentRouting [] = Inr ()"
| "checkBgpPeers env segmentRouting (peer # rest) =
     (case peer_addr peer of
        None \<Rightarrow> Inl (ForeignError ''bad_optional_field_access'')
      | Some addr \<Rightarrow>
          (case ipAddress env addr of
             Inl e \<Rightarrow> Inl e
           | Inr ip \<Rightarrow>
               if isLoopback env ip \<and> add_path peer = Some RECEIVE \<and> \<not> segmentRouting then
                 Inl (InvalidArgument
                   ''segment routing should be congfigured when BGP add_path is configured'')
               else checkBgpPeers env segmentRouting rest))"

definition checkBgpPeeringConfig :: "Env \<Rightarrow> Config \<Rightarrow> error + Config" where
  "checkBgpPeeringConfig env this =
     (let c = m_config this in
      if isBgpPeeringEnabled c \<and> bgp_config c = None then
        Inl (InvalidArgument ''enable_bgp_peering = true, but bgp_config is empty'')
      else
        (case (if isBgpPeeringEnabled c
               then checkBgpPeers env (isSegmentRoutingEnabled c)
                      (case bgp_config c of Some b \<Rightarrow> peers b | None \<Rightarrow> [])
               else Inr ()) of
           Inl e \<Rightarrow> Inl e
         | Inr u \<Rightarrow>
             (let c' = (if isBgpPeeringEnabled c \<and> bgp_translation_config c = None
                        then c\<lparr>bgp_translation_config :=
                                 Some (defaultBgpRouteTranslationConfig env)\<rparr>
                        else c)
              in if isBgpPeeringEnabled c' then
                   (case bgp_translation_config c' of
                      None \<Rightarrow> Inl (CheckFailure ''bgpTranslationConf.has_value()'')
                    | Some bgpTranslationConf \<Rightarrow>
                        if disable_legacy_translation bgpTranslationConf
                           \<and> (\<not> enable_openr_to_bgp bgpTranslationConf
                              \<or> \<not> enable_bgp_to_openr bgpTranslationConf) then
                          Inl (InvalidArgument
                            ''Legacy translation can be disabled only when new translation is enabled'')
                        else Inr (this\<lparr>m_config := c'\<rparr>))
                 else Inr (this\<lparr>m_config := c'\<rparr>))))"

definition checkThriftServerConfig :: "Env \<Rightarrow> OpenrConfig \<Rightarrow> error + unit" where
  "checkThriftServerConfig env c =
     (let thriftServerConfig = thrift_server c in
      case (x509_ca_path thriftServerConfig, x509_cert_path thriftServerConfig,
            ecc_curve_name thriftServerConfig) of
        (Some caPath, Some certPath, Some eccCurve) \<Rightarrow>
          if \<not> fs_exists env caPath \<or> \<not> fs_exists env certPath then
            Inl (InvalidArgument
              ''x509_ca_path or x509_cert_path is specified in the config but not found in the disk.'')
          else
            (case x509_key_path thriftServerConfig of
               Some keyPath \<Rightarrow>
                 if \<not> fs_exists env keyPath then
                   Inl (InvalidArgument
                     ''x509_key_path is specified in the config but not found in the disk.'')
                 else Inr ()
             | None \<Rightarrow> Inr ())
      | other \<Rightarrow>
          Inl (InvalidArgument
            ''enable_secure_thrift_server = true, but x509_ca_path, x509_cert_path or ecc_curve_name is empty.''))"

subsection \<open>\<open>Config::populateInternalDb\<close> and the constructor\<close>

text \<open>
  The checks that \<open>populateInternalDb\<close> makes itself, between \<open>populateAreaConfig\<close> and
  \<open>checkKvStoreConfig\<close>. \<open>enumName\<close> of a value that the enumeration does not name is null.
\<close>

definition checkGlobals :: "OpenrConfig \<Rightarrow> error + unit" where
  "checkGlobals c =
     (if prefix_forwarding_type c = UnnamedForwardingType
         \<or> prefix_forwarding_algorithm c = UnnamedForwardingAlgorithm then
        Inl (InvalidArgument ''invalid prefix_forwarding_type or prefix_forwarding_algorithm'')
      else if prefix_forwarding_algorithm c = KSP2_ED_ECMP
         \<and> prefix_forwarding_type c \<noteq> SR_MPLS then
        Inl (InvalidArgument ''prefix_forwarding_type must be set to SR_MPLS for KSP2_ED_ECMP'')
      else if (case ip_tos c of Some ipTos \<Rightarrow> sint ipTos < 0 \<or> sint ipTos \<ge> 256
               | None \<Rightarrow> False) then
        Inl (OutOfRange ''ip_tos must be greater or equal to 0 and less than 256'')
      else if isBgpPeeringEnabled c \<and> isVipServiceEnabled c then
        Inl (InvalidArgument ''Bgp Peering and Vip Service can not be both enabled'')
      else if isWatchdogEnabled c \<and> watchdog_config c = None then
        Inl (InvalidArgument ''enable_watchdog = true, but watchdog_config is empty'')
      else if sint (route_delete_delay_ms c) < 0 then
        Inl (InvalidArgument ''Route delete duration must be >= 0ms'')
      else Inr ())"

text \<open>The statements of \<open>populateInternalDb\<close> after \<open>populateAreaConfig\<close>, in order.\<close>

definition validateSections :: "Env \<Rightarrow> Constants \<Rightarrow> Config \<Rightarrow> error + Config" where
  "validateSections env K this =
     (let c = m_config this in
      case first_error
             [checkGlobals c,
              checkKvStoreConfig K (kvstore_config c),
              checkDecisionConfig (decision_config c),
              checkSparkConfig (spark_config c),
              checkMonitorConfig (monitor_config c),
              checkLinkMonitorConfig (link_monitor_config c),
              checkSegmentRoutingConfig env c] of
        Inl e \<Rightarrow> Inl e
      | Inr u \<Rightarrow>
     (case (if isPrefixAllocationEnabled c then
              (if length (m_areaConfigs this) > 1 then
                 Inl (InvalidArgument ''prefix_allocation only support single area config'')
               else checkPrefixAllocationConfig env this)
            else Inr this) of
        Inl e \<Rightarrow> Inl e
      | Inr this1 \<Rightarrow>
     (case checkVipServiceConfig (m_config this1) of
        Inl e \<Rightarrow> Inl e
      | Inr u \<Rightarrow>
     (case checkBgpPeeringConfig env this1 of
        Inl e \<Rightarrow> Inl e
      | Inr this2 \<Rightarrow>
     (case (if isSecureThriftServerEnabled (m_config this2)
            then checkThriftServerConfig env (m_config this2) else Inr ()) of
        Inl e \<Rightarrow> Inl e
      | Inr u \<Rightarrow>
          Inr (if eor_time_s (m_config this2) = None
               then this2\<lparr>m_config := (m_config this2)
                      \<lparr>eor_time_s := Some (3 * keepalive_time_s (spark_config (m_config this2)))\<rparr>\<rparr>
               else this2))))))"

definition populateInternalDb :: "Env \<Rightarrow> Constants \<Rightarrow> Config \<Rightarrow> (error + Config) option" where
  "populateInternalDb env K this =
     (case populateAreaConfig env K this of
        None \<Rightarrow> None
      | Some (Inl e) \<Rightarrow> Some (Inl e)
      | Some (Inr this1) \<Rightarrow> Some (validateSections env K this1))"

text \<open>
  \<open>Config::Config(configFile)\<close>: the result is the constructed object, or the exception
  that leaves the constructor, in which case there is no object.
\<close>

definition new_Config :: "Env \<Rightarrow> Constants \<Rightarrow> string \<Rightarrow> (error + Config) option" where
  "new_Config env K configFile =
     (case readFileToString env configFile of
        None \<Rightarrow> Some (Inl (ConfigError (''Could not read config file: '' @ configFile)))
      | Some contents \<Rightarrow>
          (case deserialize env contents of
             Inl ex \<Rightarrow>
               Some (Inl (ConfigError (''Could not parse OpenrConfig struct: '' @ ex)))
           | Inr parsed \<Rightarrow>
               populateInternalDb env K
                 \<lparr>m_config = parsed, m_areaConfigs = [], m_prefixAllocationParams = None\<rparr>))"

subsection \<open>What a constructed object satisfies\<close>

text \<open>An area passes the checks of the loop of \<open>populateAreaConfig\<close>.\<close>

definition area_accepted :: "Env \<Rightarrow> Filters option \<Rightarrow> AreaConfig \<Rightarrow> bool" where
  "area_accepted env policy areaConf \<longleftrightarrow>
     checkImportPolicy policy areaConf = Inr ()
     \<and> checkNodeSegmentLabelConfig env areaConf = Inr ()
     \<and> checkAdjacencyLabelConfig env areaConf = Inr ()
     \<and> checkPrependLabelConfig env areaConf = Inr ()"

text \<open>
  The checks of \<open>checkBgpPeeringConfig\<close> pass on a configuration, with nothing left for
  it to fill in.
\<close>

definition bgp_peering_accepted :: "Env \<Rightarrow> OpenrConfig \<Rightarrow> bool" where
  "bgp_peering_accepted env c \<longleftrightarrow>
     (isBgpPeeringEnabled c \<longrightarrow>
        (\<exists>b tc. bgp_config c = Some b
           \<and> checkBgpPeers env (isSegmentRoutingEnabled c) (peers b) = Inr ()
           \<and> bgp_translation_config c = Some tc
           \<and> \<not> (disable_legacy_translation tc
                  \<and> (\<not> enable_openr_to_bgp tc \<or> \<not> enable_bgp_to_openr tc))))"


subsection \<open>Example values\<close>

text \<open>Concrete values on which the theorems below are exercised.\<close>

definition example_constants :: Constants where
  "example_constants = \<lparr>kTtlInfinity = - 2147483648, kDefaultArea = ''0''\<rparr>"

definition example_kvstore :: KvstoreConfig where
  "example_kvstore = \<lparr>key_ttl_ms = 300000, ttl_decrement_ms = 1,
     flood_rate = Some \<lparr>flood_msg_per_sec = 1024, flood_msg_burst_size = 512\<rparr>,
     set_leaf_node = None, key_prefix_filters = None, key_originator_id_filters = None,
     enable_flood_optimization = Some True, is_flood_root = Some True\<rparr>"

definition scenario_filter :: KeyFilter where
  "scenario_filter = \<lparr>keyPatterns = [''key3''], originatorIds = [''node3'', ''node33''],
     combinator = AND, ignoreTtl = False, redactValue = False\<rparr>"

definition example_area :: "string \<Rightarrow> string list \<Rightarrow> AreaConfig" where
  "example_area name nbrs =
     empty_AreaConfig\<lparr>area_id := name, neighbor_regexes := nbrs,
       include_interface_regexes := [''po.*'']\<rparr>"

definition example_config :: OpenrConfig where
  "example_config =
     \<lparr>node_name = ''thanos'',
      areas = [example_area ''spine'' [''.*''], example_area ''plane'' [''.*''],
               example_area ''pod'' [''.*'']],
      area_policies = None,
      prefix_forwarding_type = SR_MPLS,
      prefix_forwarding_algorithm = SP_ECMP,
      ip_tos = Some 192,
      enable_v4 = Some True,
      enable_segment_routing = Some True,
      enable_bgp_peering = None,
      enable_vip_service = None,
      enable_watchdog = Some True,
      enable_prefix_allocation = None,
      watchdog_config = Some \<lparr>interval_s = 20, thread_timeout_s = 300, max_memory_mb = 800\<rparr>,
      route_delete_delay_ms = 1000,
      kvstore_config = example_kvstore,
      decision_config = \<lparr>debounce_min_ms = 10, debounce_max_ms = 250\<rparr>,
      spark_config =
        \<lparr>neighbor_discovery_port = 6666, hello_time_s = 20, fastinit_hello_time_ms = 500,
         keepalive_time_s = 2, hold_time_s = 10, graceful_restart_time_s = 30,
         step_detector_conf =
           \<lparr>fast_window_size = 10, slow_window_size = 60, lower_threshold = 2,
            upper_threshold = 5\<rparr>\<rparr>,
      monitor_config = \<lparr>max_event_log = 100\<rparr>,
      link_monitor_config =
        \<lparr>linkflap_initial_backoff_ms = 60000, linkflap_max_backoff_ms = 300000\<rparr>,
      segment_routing_config = None,
      prefix_allocation_config = None,
      vip_service_config = None,
      bgp_config = None,
      bgp_translation_config = None,
      thrift_server =
        \<lparr>enable_secure_thrift_server = False, x509_ca_path = None, x509_cert_path = None,
         x509_key_path = None, ecc_curve_name = None\<rparr>,
      eor_time_s = None\<rparr>"

definition example_env :: Env where
  "example_env =
     \<lparr>isLabelRangeValid = (\<lambda>r. 16 \<le> sint (start_label r) \<and> sint (start_label r) \<le> sint (end_label r)
          \<and> sint (end_label r) < 1048576),
      isMplsLabelValid = (\<lambda>l. 16 \<le> sint l \<and> sint l < 1048576),
      fs_exists = (\<lambda>path. False),
      createNetwork = (\<lambda>s. Inl (ForeignError ''IPAddressFormatException'')),
      ipAddress = (\<lambda>s. Inl (ForeignError ''IPAddressFormatException'')),
      isLoopback = (\<lambda>ip. False),
      readFileToString = (\<lambda>path. if path = ''/etc/openr.conf'' then Some ''{}'' else None),
      deserialize = (\<lambda>contents. if contents = ''{}'' then Inr example_config
                                 else Inl ''parse error''),
      defaultBgpRouteTranslationConfig =
        \<lparr>disable_legacy_translation = False, enable_openr_to_bgp = False,
         enable_bgp_to_openr = False\<rparr>\<rparr>"

definition example_object :: "AreaConfig list \<Rightarrow> Config" where
  "example_object as =
     \<lparr>m_config = example_config\<lparr>areas := as\<rparr>, m_areaConfigs = [],
      m_prefixAllocationParams = None\<rparr>"

section \<open>Properties\<close>

subsection \<open>Parsing and matching\<close>

lemma parse_unmatchable:
  "re2_parse unmatchable = Parsed (Concat (Literal (CHR ''a'')) BeginText)"
  by code_simp

lemma literal_then_begin_never:
  "\<not> matches (Concat (Literal c) BeginText) cs text 0 n"
  by (auto simp: list_ex_iff)

lemma compileRegexSet_Nil:
  "compileRegexSet [] =
     Some (Inr \<lparr>set_options = \<lparr>case_sensitive = False\<rparr>, set_anchor = ANCHOR_BOTH,
                set_regexps = [Concat (Literal (CHR ''a'')) BeginText]\<rparr>)"
  by (simp add: compileRegexSet_def re2_set_add_def parse_unmatchable re2_set_new_def
      default_options_def re2_set_compile_def)














subsection \<open>The KvStore section\<close>

lemma checkKvStoreConfig_flood_bad:
  assumes "flood_rate c = Some fr"
    and "sint (flood_msg_per_sec fr) \<le> 0 \<or> sint (flood_msg_burst_size fr) \<le> 0"
  shows "\<exists>e \<in> flood_rate_errors. checkKvStoreConfig K c = Inl e"
  using assms by (auto simp: checkKvStoreConfig_def flood_rate_errors_def)

lemma checkKvStoreConfig_flood_good:
  assumes "flood_rate c = None \<or>
      (\<exists>fr. flood_rate c = Some fr \<and> 0 < sint (flood_msg_per_sec fr)
         \<and> 0 < sint (flood_msg_burst_size fr))"
  shows "checkKvStoreConfig K c =
      (if key_ttl_ms c = kTtlInfinity K
       then Inl (OutOfRange ''kvstore key_ttl_ms should be a finite number'')
       else Inr ())"
  using assms by (auto simp: checkKvStoreConfig_def)

subsection \<open>Claims about the compiled pattern set\<close>

lemma regexSetMatches_Nil: "regexSetMatches [] text = Some (Inr False)"
  using literal_then_begin_never [of "CHR ''a''" False "text" "length text"]
  by (simp add: regexSetMatches_def compileRegexSet_Nil re2_set_match_def search_def
      del: matches.simps)

text \<open>
  C1, as amended. The pattern set that \<open>compileRegexSet\<close> builds from an empty list of
  strings holds the one pattern \<open>a^\<close> and matches no text at all. That a filter with an
  empty key-pattern set matches every key, and one with an empty originator set every
  originator, is a rule of the filter for empty sets and not a property of a compiled
  pattern set.
\<close>

theorem empty_pattern_set_matches_nothing:
  "regexSetMatches [] text = Some (Inr False)
   \<and> key_matches (f\<lparr>keyPatterns := []\<rparr>) key = Some True
   \<and> originator_matches (f\<lparr>originatorIds := []\<rparr>) originatorId
   \<and> filter_matches (f\<lparr>keyPatterns := [], originatorIds := []\<rparr>) key originatorId = Some True"
  by (simp add: regexSetMatches_Nil key_matches_def originator_matches_def filter_matches_def
      split: combinator.split)

text \<open>
  C1, as stated, fails: the pattern set compiled from the empty list does not match the
  text \<open>key1\<close>.
\<close>

theorem empty_pattern_set_counterexample:
  "regexSetMatches [] ''key1'' = Some (Inr False)"
  by (rule regexSetMatches_Nil)

text \<open>
  C2, as amended. With key patterns matched as prefixes, the filter with the key pattern
  \<open>key3\<close>, the originators \<open>node3\<close> and \<open>node33\<close> and the combinator \<open>AND\<close> matches
  the three entries \<open>key3\<close> (\<open>node3\<close>), \<open>key33\<close> (\<open>node33\<close>) and \<open>key333\<close> (\<open>node33\<close>).
  The pattern set that \<open>compileRegexSet\<close> compiles from \<open>key3\<close> is anchored at both ends:
  it matches the key \<open>key3\<close> and matches neither \<open>key33\<close> nor \<open>key333\<close>.
\<close>

theorem key3_scenario:
  "filter_matches scenario_filter ''key3'' ''node3'' = Some True
   \<and> filter_matches scenario_filter ''key33'' ''node33'' = Some True
   \<and> filter_matches scenario_filter ''key333'' ''node33'' = Some True
   \<and> regexSetMatches [''key3''] ''key3'' = Some (Inr True)
   \<and> regexSetMatches [''key3''] ''key33'' = Some (Inr False)
   \<and> regexSetMatches [''key3''] ''key333'' = Some (Inr False)"
  by code_simp

text \<open>
  C2, as stated, fails: compiled by \<open>compileRegexSet\<close>, the pattern \<open>key3\<close> matches
  neither \<open>key33\<close> nor \<open>key333\<close>.
\<close>

theorem key3_full_match_counterexample:
  "regexSetMatches [''key3''] ''key33'' = Some (Inr False)
   \<and> regexSetMatches [''key3''] ''key333'' = Some (Inr False)"
  by code_simp







subsection \<open>The areas\<close>

lemma first_error_Inr: "first_error rs = Inr u \<longleftrightarrow> (\<forall>r \<in> set rs. r = Inr ())"
  by (induction rs rule: first_error.induct) auto

lemma first_error_Inl: "first_error rs = Inl e \<Longrightarrow> Inl e \<in> set rs"
  by (induction rs rule: first_error.induct) auto

lemma compileRegexSet_Inl:
  assumes "compileRegexSet strings = Some (Inl e)"
  shows "\<exists>m. e = InvalidArgument m"
proof -
  have add: "\<exists>m. e = InvalidArgument m" if "add_strings S strs = Some (Inl e)" for S strs
    using that
    by (induction strs arbitrary: S)
       (auto simp: re2_set_add_def split: parse_result.splits option.splits sum.splits)
  show ?thesis
  proof (cases "strings = []")
    case True
    with assms show ?thesis by (simp add: compileRegexSet_Nil)
  next
    case False
    with assms show ?thesis
      by (auto simp: compileRegexSet_def Let_def re2_set_compile_def dest: add
          split: option.splits sum.splits)
  qed
qed

lemma new_AreaConfiguration_Inl:
  "new_AreaConfiguration a = Some (Inl e) \<Longrightarrow> \<exists>m. e = InvalidArgument m"
  by (auto simp: new_AreaConfiguration_def dest: compileRegexSet_Inl
      split: option.splits sum.splits)


lemma area_checks_Inl:
  "checkNodeSegmentLabelConfig env a = Inl e \<Longrightarrow> \<exists>m. e = InvalidArgument m"
  "checkAdjacencyLabelConfig env a = Inl e \<Longrightarrow> \<exists>m. e = InvalidArgument m"
  "checkPrependLabelConfig env a = Inl e \<Longrightarrow> \<exists>m. e = InvalidArgument m"
  "checkImportPolicy pol a = Inl e \<Longrightarrow> \<exists>m. e = InvalidArgument m"
  by (auto simp: checkNodeSegmentLabelConfig_def checkAdjacencyLabelConfig_def
      checkPrependLabelConfig_def checkImportPolicy_def split: option.splits if_splits)

lemma area_id_match_all_default [simp]: "area_id (match_all_default a) = area_id a"
  by (simp add: match_all_default_def)

lemma area_label_checks_Inl:
  assumes "first_error [checkNodeSegmentLabelConfig env a, checkAdjacencyLabelConfig env a,
      checkPrependLabelConfig env a] = Inl e"
  shows "\<exists>m. e = InvalidArgument m"
proof -
  from first_error_Inl [OF assms]
  have "checkNodeSegmentLabelConfig env a = Inl e \<or> checkAdjacencyLabelConfig env a = Inl e
      \<or> checkPrependLabelConfig env a = Inl e"
    by auto
  then show ?thesis using area_checks_Inl by blast
qed

lemma populateArea_Inl:
  "populateArea env pol acs a = Some (Inl e) \<Longrightarrow> \<exists>m. e = InvalidArgument m"
  by (auto simp: populateArea_def Let_def
      dest: area_checks_Inl new_AreaConfiguration_Inl area_label_checks_Inl
      split: option.splits sum.splits if_splits)

lemma populateArea_Inr:
  "populateArea env pol acs a = Some (Inr (a', acs')) \<longleftrightarrow>
     a' = match_all_default a \<and> area_id a \<notin> fst ` set acs
     \<and> area_accepted env pol a'
     \<and> (\<exists>ac. new_AreaConfiguration a' = Some (Inr ac) \<and> acs' = acs @ [(area_id a, ac)])"
  by (auto simp: populateArea_def Let_def area_accepted_def first_error_Inr
      split: option.splits sum.splits if_splits)


lemma populateAreas_Inl:
  "populateAreas env pol as vis acs = Some (Inl e) \<Longrightarrow> \<exists>m. e = InvalidArgument m"
proof (induction as arbitrary: vis acs)
  case Nil
  then show ?case by simp
next
  case (Cons a as)
  then show ?case
    by (auto dest: populateArea_Inl split: option.splits sum.splits)
qed

lemma populateAreas_Inr:
  "populateAreas env pol as vis acs = Some (Inr (as', acs')) \<Longrightarrow>
     as' = vis @ map match_all_default as
     \<and> distinct (map area_id as) \<and> (\<forall>a \<in> set as. area_id a \<notin> fst ` set acs)
     \<and> list_all (area_accepted env pol) (map match_all_default as)
     \<and> (\<exists>cs. map (\<lambda>a. new_AreaConfiguration (match_all_default a)) as = map (\<lambda>c. Some (Inr c)) cs
           \<and> acs' = acs @ zip (map area_id as) cs)"
proof (induction as arbitrary: vis acs)
  case Nil
  then show ?case by simp
next
  case (Cons a as)
  from Cons.prems obtain a1 acs1 where
    step: "populateArea env pol acs a = Some (Inr (a1, acs1))"
    and rest: "populateAreas env pol as (vis @ [a1]) acs1 = Some (Inr (as', acs'))"
    by (auto split: option.splits sum.splits)
  from step obtain ac where a1: "a1 = match_all_default a"
    and fresh: "area_id a \<notin> fst ` set acs"
    and acc: "area_accepted env pol a1"
    and ac: "new_AreaConfiguration a1 = Some (Inr ac)"
    and acs1: "acs1 = acs @ [(area_id a, ac)]"
    by (auto simp: populateArea_Inr)
  from Cons.IH [OF rest] obtain cs where
    as': "as' = (vis @ [a1]) @ map match_all_default as"
    and d: "distinct (map area_id as)"
    and f: "\<forall>b \<in> set as. area_id b \<notin> fst ` set acs1"
    and l: "list_all (area_accepted env pol) (map match_all_default as)"
    and cs: "map (\<lambda>a. new_AreaConfiguration (match_all_default a)) as = map (\<lambda>c. Some (Inr c)) cs"
    and acs': "acs' = acs1 @ zip (map area_id as) cs"
    by blast
  have 1: "as' = vis @ map match_all_default (a # as)" using as' a1 by simp
  have 2: "distinct (map area_id (a # as))" using d f acs1 by auto
  have 3: "\<forall>b \<in> set (a # as). area_id b \<notin> fst ` set acs" using f fresh acs1 by auto
  have 4: "list_all (area_accepted env pol) (map match_all_default (a # as))"
    using l acc a1 by simp
  have 5: "map (\<lambda>a. new_AreaConfiguration (match_all_default a)) (a # as)
        = map (\<lambda>c. Some (Inr c)) (ac # cs)
      \<and> acs' = acs @ zip (map area_id (a # as)) (ac # cs)"
    using cs acs' acs1 ac a1 by simp
  from 1 2 3 4 5 show ?case by blast
qed

lemma populateAreas_append:
  "populateAreas env pol (xs @ ys) vis acs =
     (case populateAreas env pol xs vis acs of
        None \<Rightarrow> None
      | Some (Inl e) \<Rightarrow> Some (Inl e)
      | Some (Inr (d, a)) \<Rightarrow> populateAreas env pol ys d a)"
  by (induction xs arbitrary: vis acs) (auto split: option.splits sum.splits)

lemma with_default_area_nonempty: "areas c \<noteq> [] \<Longrightarrow> with_default_area K c = c"
  by (simp add: with_default_area_def)

lemma propagationPolicy_with_default_area [simp]:
  "propagationPolicy (with_default_area K c) = propagationPolicy c"
  by (simp add: with_default_area_def propagationPolicy_def getAreaPolicies_def)

lemma populateAreaConfig_Inl:
  "populateAreaConfig env K this = Some (Inl e) \<Longrightarrow> \<exists>m. e = InvalidArgument m"
  by (auto simp: populateAreaConfig_def Let_def dest: populateAreas_Inl
      split: option.splits sum.splits)

lemma populateAreaConfig_Inr:
  assumes "populateAreaConfig env K this = Some (Inr this')"
  shows "\<exists>acs'. populateAreas env (propagationPolicy (m_config this))
        (areas (with_default_area K (m_config this))) [] (m_areaConfigs this)
          = Some (Inr (map match_all_default (areas (with_default_area K (m_config this))), acs'))
     \<and> this' = this\<lparr>m_config := (with_default_area K (m_config this))
           \<lparr>areas := map match_all_default (areas (with_default_area K (m_config this)))\<rparr>,
         m_areaConfigs := acs'\<rparr>"
proof -
  let ?c = "with_default_area K (m_config this)"
  from assms obtain as' acs' where
    p: "populateAreas env (propagationPolicy (m_config this)) (areas ?c) [] (m_areaConfigs this)
          = Some (Inr (as', acs'))"
    and t: "this' = this\<lparr>m_config := ?c\<lparr>areas := as'\<rparr>, m_areaConfigs := acs'\<rparr>"
    by (auto simp: populateAreaConfig_def Let_def split: option.splits sum.splits)
  from populateAreas_Inr [OF p] have "as' = map match_all_default (areas ?c)" by simp
  with p t show ?thesis by blast
qed

lemma populateAreas_lookup:
  assumes p: "populateAreas env pol as vis acs = Some (Inr (as', acs'))" and a: "a \<in> set as"
  shows "\<exists>ac. new_AreaConfiguration (match_all_default a) = Some (Inr ac)
     \<and> map_of acs' (area_id a) = Some ac"
proof -
  from populateAreas_Inr [OF p] obtain cs where
    d: "distinct (map area_id as)"
    and f: "\<forall>a \<in> set as. area_id a \<notin> fst ` set acs"
    and cs: "map (\<lambda>a. new_AreaConfiguration (match_all_default a)) as = map (\<lambda>c. Some (Inr c)) cs"
    and acs': "acs' = acs @ zip (map area_id as) cs"
    by blast
  from cs have len: "length cs = length as" by (metis length_map)
  from a obtain i where i: "i < length as" and ai: "as ! i = a"
    by (auto simp: in_set_conv_nth)
  from cs i len have n: "new_AreaConfiguration (match_all_default (as ! i)) = Some (Inr (cs ! i))"
    by (metis nth_map)
  have "map_of (zip (map area_id as) cs) (map area_id as ! i) = Some (cs ! i)"
    using d len i by (intro map_of_zip_nth) auto
  then have z: "map_of (zip (map area_id as) cs) (area_id a) = Some (cs ! i)"
    using i ai by simp
  have "map_of acs (area_id a) = None"
    using f a by (simp add: map_of_eq_None_iff)
  with z have "map_of acs' (area_id a) = Some (cs ! i)"
    by (simp add: acs' map_add_def)
  with n ai show ?thesis by blast
qed

lemma populateAreas_keys:
  assumes p: "populateAreas env pol as vis acs = Some (Inr (as', acs'))"
  shows "map fst acs' = map fst acs @ map area_id as"
proof -
  from populateAreas_Inr [OF p] obtain cs where
    cs: "map (\<lambda>a. new_AreaConfiguration (match_all_default a)) as = map (\<lambda>c. Some (Inr c)) cs"
    and acs': "acs' = acs @ zip (map area_id as) cs"
    by blast
  from cs have len: "length cs = length as" by (metis length_map)
  then show ?thesis by (simp add: acs')
qed

lemma unique_entry:
  "distinct (map fst m) \<Longrightarrow> k \<in> set (map fst m) \<Longrightarrow>
     length (filter (\<lambda>entry. fst entry = k) m) = 1"
proof (induction m)
  case Nil
  then show ?case by simp
next
  case (Cons e m)
  show ?case
  proof (cases "fst e = k")
    case True
    from Cons.prems have "fst e \<notin> fst ` set m" by simp
    with True have "\<forall>x \<in> set m. fst x \<noteq> k" by (metis imageI)
    then have "filter (\<lambda>entry. fst entry = k) m = []" by (simp add: filter_empty_conv)
    with True show ?thesis by simp
  next
    case False
    with Cons show ?thesis by auto
  qed
qed









text \<open>
  C10. A configuration with two areas of the same \<open>area_id\<close> makes \<open>populateAreaConfig\<close>
  throw \<open>std::invalid_argument\<close>; where the areas before the repeated one pass and the
  repeated one gets as far as the insertion, the message is that of the duplicate area
  id. If \<open>populateAreaConfig\<close> returns (on an object whose map is empty, as in the
  constructor), the area ids are distinct and \<open>areaConfigs_\<close> has exactly one entry for
  each area, under its id.
\<close>

theorem populateAreaConfig_area_ids:
  "(\<not> distinct (map area_id (areas (m_config this))) \<and> populateAreaConfig env K this = Some r
      \<longrightarrow> is_invalid_argument r)
   \<and> (areas (m_config this) = pre @ a # post
       \<and> populateAreas env (propagationPolicy (m_config this)) pre [] (m_areaConfigs this)
            = Some (Inr (pre', acs))
       \<and> area_id a \<in> set (map area_id pre)
       \<and> checkImportPolicy (propagationPolicy (m_config this)) (match_all_default a) = Inr ()
       \<and> new_AreaConfiguration (match_all_default a) = Some (Inr ac)
      \<longrightarrow> populateAreaConfig env K this
            = Some (Inl (InvalidArgument (''Duplicate area config id: '' @ area_id a))))
   \<and> (m_areaConfigs this = [] \<and> populateAreaConfig env K this = Some (Inr this')
      \<longrightarrow> distinct (map area_id (areas (m_config this')))
          \<and> map fst (m_areaConfigs this') = map area_id (areas (m_config this'))
          \<and> (\<forall>b \<in> set (areas (m_config this')).
                length (filter (\<lambda>entry. fst entry = area_id b) (m_areaConfigs this')) = 1
                \<and> (\<exists>bc. map_of (m_areaConfigs this') (area_id b) = Some bc
                       \<and> new_AreaConfiguration b = Some (Inr bc))))"
proof (intro conjI impI)
  assume h: "\<not> distinct (map area_id (areas (m_config this)))
      \<and> populateAreaConfig env K this = Some r"
  then have ne: "areas (m_config this) \<noteq> []" by auto
  show "is_invalid_argument r"
  proof (cases r)
    case (Inl e)
    with h populateAreaConfig_Inl show ?thesis by fastforce
  next
    case (Inr this')
    with h populateAreaConfig_Inr obtain acs' where
      "populateAreas env (propagationPolicy (m_config this))
        (areas (with_default_area K (m_config this))) [] (m_areaConfigs this)
          = Some (Inr (map match_all_default (areas (with_default_area K (m_config this))), acs'))"
      by blast
    from populateAreas_Inr [OF this] ne
    have "distinct (map area_id (areas (m_config this)))"
      by (simp add: with_default_area_nonempty)
    with h show ?thesis by simp
  qed
next
  assume h: "areas (m_config this) = pre @ a # post
       \<and> populateAreas env (propagationPolicy (m_config this)) pre [] (m_areaConfigs this)
            = Some (Inr (pre', acs))
       \<and> area_id a \<in> set (map area_id pre)
       \<and> checkImportPolicy (propagationPolicy (m_config this)) (match_all_default a) = Inr ()
       \<and> new_AreaConfiguration (match_all_default a) = Some (Inr ac)"
  then have pre: "populateAreas env (propagationPolicy (m_config this)) pre [] (m_areaConfigs this)
            = Some (Inr (pre', acs))" by blast
  from populateAreas_keys [OF pre] h have "area_id a \<in> fst ` set acs"
    by (metis Un_iff image_set set_append)
  with h have "populateArea env (propagationPolicy (m_config this)) acs a
      = Some (Inl (InvalidArgument (''Duplicate area config id: '' @ area_id a)))"
    by (simp add: populateArea_def)
  with pre have "populateAreas env (propagationPolicy (m_config this)) (pre @ a # post) []
      (m_areaConfigs this)
      = Some (Inl (InvalidArgument (''Duplicate area config id: '' @ area_id a)))"
    by (simp add: populateAreas_append)
  with h show "populateAreaConfig env K this
            = Some (Inl (InvalidArgument (''Duplicate area config id: '' @ area_id a)))"
    by (simp add: populateAreaConfig_def with_default_area_nonempty)
next
  assume h: "m_areaConfigs this = [] \<and> populateAreaConfig env K this = Some (Inr this')"
  let ?c = "with_default_area K (m_config this)"
  let ?pol = "propagationPolicy (m_config this)"
  from h populateAreaConfig_Inr obtain acs' where
    p: "populateAreas env ?pol (areas ?c) [] []
          = Some (Inr (map match_all_default (areas ?c), acs'))"
    and t: "this' = this\<lparr>m_config := ?c\<lparr>areas := map match_all_default (areas ?c)\<rparr>,
         m_areaConfigs := acs'\<rparr>"
    by metis
  have ar: "areas (m_config this') = map match_all_default (areas ?c)"
    and acs: "m_areaConfigs this' = acs'"
    using t by simp_all
  have ids: "map area_id (areas (m_config this')) = map area_id (areas ?c)"
    using ar by (simp add: comp_def)
  from populateAreas_Inr [OF p] have d: "distinct (map area_id (areas ?c))" by blast
  show d': "distinct (map area_id (areas (m_config this')))" using d ids by simp
  show k: "map fst (m_areaConfigs this') = map area_id (areas (m_config this'))"
    using populateAreas_keys [OF p] ids acs by simp
  show "\<forall>b \<in> set (areas (m_config this')).
      length (filter (\<lambda>entry. fst entry = area_id b) (m_areaConfigs this')) = 1
      \<and> (\<exists>bc. map_of (m_areaConfigs this') (area_id b) = Some bc
             \<and> new_AreaConfiguration b = Some (Inr bc))"
  proof
    fix b assume b: "b \<in> set (areas (m_config this'))"
    with ar obtain b0 where b0: "b0 \<in> set (areas ?c)" and bb: "b = match_all_default b0"
      by auto
    from populateAreas_lookup [OF p b0] bb acs
    have l: "\<exists>bc. map_of (m_areaConfigs this') (area_id b) = Some bc
             \<and> new_AreaConfiguration b = Some (Inr bc)" by auto
    have dk: "distinct (map fst (m_areaConfigs this'))" using d' k by simp
    have mem: "area_id b \<in> set (map fst (m_areaConfigs this'))" using b k by simp
    have "length (filter (\<lambda>entry. fst entry = area_id b) (m_areaConfigs this')) = 1"
      using dk mem by (simp add: unique_entry)
    with l show "length (filter (\<lambda>entry. fst entry = area_id b) (m_areaConfigs this')) = 1
      \<and> (\<exists>bc. map_of (m_areaConfigs this') (area_id b) = Some bc
             \<and> new_AreaConfiguration b = Some (Inr bc))" by blast
  qed
qed

theorem populateAreaConfig_area_ids_witness:
  "\<not> distinct (map area_id [example_area ''spine'' [], example_area ''pod'' [''rsw.*''],
         example_area ''spine'' [''fsw.*'']])
   \<and> populateAreaConfig example_env example_constants
        (example_object [example_area ''spine'' [], example_area ''pod'' [''rsw.*''],
           example_area ''spine'' [''fsw.*'']])
      = Some (Inl (InvalidArgument ''Duplicate area config id: spine''))
   \<and> is_invalid_argument (Inl (InvalidArgument ''Duplicate area config id: spine'')
        :: error + Config)
   \<and> (\<exists>this'. populateAreaConfig example_env example_constants
           (example_object [example_area ''spine'' [], example_area ''pod'' [''rsw.*'']])
         = Some (Inr this')
       \<and> map fst (m_areaConfigs this') = [''spine'', ''pod'']
       \<and> distinct (map area_id (areas (m_config this'))))"
proof -
  let ?dup = "[example_area ''spine'' [], example_area ''pod'' [''rsw.*''],
         example_area ''spine'' [''fsw.*'']]"
  let ?pre = "[example_area ''spine'' [], example_area ''pod'' [''rsw.*'']]"
  let ?a = "example_area ''spine'' [''fsw.*'']"
  let ?r = "Inl (InvalidArgument ''Duplicate area config id: spine'') :: error + Config"
  have nd: "\<not> distinct (map area_id ?dup)" by (simp add: example_area_def)
  have ev: "populateAreaConfig example_env example_constants (example_object ?dup) = Some ?r"
    by code_simp
  have ar: "areas (m_config (example_object ?dup)) = ?dup" by (simp add: example_object_def)
  note t1 = populateAreaConfig_area_ids
    [of "example_object ?dup" example_env example_constants ?r]
  from t1 nd ev ar have inv: "is_invalid_argument ?r" by simp
  \<comment> \<open>the message of the first repeated area\<close>
  have "(case populateAreas example_env (propagationPolicy (m_config (example_object ?dup)))
          ?pre [] (m_areaConfigs (example_object ?dup)) of
        Some (Inr t) \<Rightarrow> True | _ \<Rightarrow> False)"
    by code_simp
  then obtain pre' acs where
    pp: "populateAreas example_env (propagationPolicy (m_config (example_object ?dup)))
          ?pre [] (m_areaConfigs (example_object ?dup)) = Some (Inr (pre', acs))"
    by (auto split: option.splits sum.splits)
  have "(case new_AreaConfiguration (match_all_default ?a) of
        Some (Inr t) \<Rightarrow> True | _ \<Rightarrow> False)"
    by code_simp
  then obtain ac where na: "new_AreaConfiguration (match_all_default ?a) = Some (Inr ac)"
    by (auto split: option.splits sum.splits)
  have ip: "checkImportPolicy (propagationPolicy (m_config (example_object ?dup)))
      (match_all_default ?a) = Inr ()"
    by code_simp
  have sp: "areas (m_config (example_object ?dup)) = ?pre @ ?a # []"
    by (simp add: example_object_def)
  have mem: "area_id ?a \<in> set (map area_id ?pre)" by (simp add: example_area_def)
  from populateAreaConfig_area_ids
    [of "example_object ?dup" example_env example_constants _ ?pre ?a "[]" pre' acs ac]
    sp pp mem ip na
  have msg: "populateAreaConfig example_env example_constants (example_object ?dup)
      = Some (Inl (InvalidArgument (''Duplicate area config id: '' @ area_id ?a)))"
    by blast
  then have msg': "populateAreaConfig example_env example_constants (example_object ?dup)
      = Some ?r" by (simp add: example_area_def)
  \<comment> \<open>distinct ids\<close>
  have "(case populateAreaConfig example_env example_constants (example_object ?pre) of
      Some (Inr t) \<Rightarrow> True | _ \<Rightarrow> False)"
    by code_simp
  then obtain this' where
    ok: "populateAreaConfig example_env example_constants (example_object ?pre)
      = Some (Inr this')"
    by (auto split: option.splits sum.splits)
  have em: "m_areaConfigs (example_object ?pre) = []" by (simp add: example_object_def)
  from populateAreaConfig_area_ids
    [of "example_object ?pre" example_env example_constants _ _ _ _ _ _ _ this'] em ok
  have d: "distinct (map area_id (areas (m_config this')))"
    and k: "map fst (m_areaConfigs this') = map area_id (areas (m_config this'))"
    by blast+
  have "(case populateAreaConfig example_env example_constants (example_object ?pre) of
      Some (Inr t) \<Rightarrow> map area_id (areas (m_config t)) = [''spine'', ''pod''] | _ \<Rightarrow> False)"
    by code_simp
  with ok have "map area_id (areas (m_config this')) = [''spine'', ''pod'']" by simp
  with k have k': "map fst (m_areaConfigs this') = [''spine'', ''pod'']" by simp
  have ex: "\<exists>this'. populateAreaConfig example_env example_constants (example_object ?pre)
         = Some (Inr this')
       \<and> map fst (m_areaConfigs this') = [''spine'', ''pod'']
       \<and> distinct (map area_id (areas (m_config this')))"
    using ok k' d by (intro exI [of _ this']) simp
  from nd msg' inv ex show ?thesis
    apply -
    apply (intro conjI)
    apply assumption+
    done
qed

subsection \<open>The constructor\<close>

text \<open>The two fields that the checks after \<open>populateAreaConfig\<close> write.\<close>

lemma propagationPolicy_irrelevant [simp]:
  "propagationPolicy (c\<lparr>bgp_translation_config := b\<rparr>) = propagationPolicy c"
  "propagationPolicy (c\<lparr>eor_time_s := t\<rparr>) = propagationPolicy c"
  by (simp_all add: propagationPolicy_def getAreaPolicies_def)

lemma checkGlobals_irrelevant [simp]:
  "checkGlobals (c\<lparr>bgp_translation_config := b\<rparr>) = checkGlobals c"
  "checkGlobals (c\<lparr>eor_time_s := t\<rparr>) = checkGlobals c"
  by (simp_all add: checkGlobals_def isBgpPeeringEnabled_def
      isVipServiceEnabled_def isWatchdogEnabled_def)

lemma checkSegmentRoutingConfig_irrelevant [simp]:
  "checkSegmentRoutingConfig env (c\<lparr>bgp_translation_config := b\<rparr>)
     = checkSegmentRoutingConfig env c"
  "checkSegmentRoutingConfig env (c\<lparr>eor_time_s := t\<rparr>) = checkSegmentRoutingConfig env c"
  by (simp_all add: checkSegmentRoutingConfig_def)

lemma checkVipServiceConfig_irrelevant [simp]:
  "checkVipServiceConfig (c\<lparr>bgp_translation_config := b\<rparr>) = checkVipServiceConfig c"
  "checkVipServiceConfig (c\<lparr>eor_time_s := t\<rparr>) = checkVipServiceConfig c"
  by (simp_all add: checkVipServiceConfig_def isVipServiceEnabled_def
      cong: option.case_cong if_cong)

lemma checkThriftServerConfig_irrelevant [simp]:
  "checkThriftServerConfig env (c\<lparr>bgp_translation_config := b\<rparr>)
     = checkThriftServerConfig env c"
  "checkThriftServerConfig env (c\<lparr>eor_time_s := t\<rparr>) = checkThriftServerConfig env c"
  by (simp_all add: checkThriftServerConfig_def)

lemma flags_irrelevant [simp]:
  "isPrefixAllocationEnabled (c\<lparr>bgp_translation_config := b\<rparr>) = isPrefixAllocationEnabled c"
  "isPrefixAllocationEnabled (c\<lparr>eor_time_s := t\<rparr>) = isPrefixAllocationEnabled c"
  "isSecureThriftServerEnabled (c\<lparr>bgp_translation_config := b\<rparr>)
     = isSecureThriftServerEnabled c"
  "isSecureThriftServerEnabled (c\<lparr>eor_time_s := t\<rparr>) = isSecureThriftServerEnabled c"
  "isV4Enabled (c\<lparr>bgp_translation_config := b\<rparr>) = isV4Enabled c"
  "isV4Enabled (c\<lparr>eor_time_s := t\<rparr>) = isV4Enabled c"
  "isBgpPeeringEnabled (c\<lparr>bgp_translation_config := b\<rparr>) = isBgpPeeringEnabled c"
  "isBgpPeeringEnabled (c\<lparr>eor_time_s := t\<rparr>) = isBgpPeeringEnabled c"
  "isSegmentRoutingEnabled (c\<lparr>bgp_translation_config := b\<rparr>) = isSegmentRoutingEnabled c"
  "isSegmentRoutingEnabled (c\<lparr>eor_time_s := t\<rparr>) = isSegmentRoutingEnabled c"
  by (simp_all add: isPrefixAllocationEnabled_def isSecureThriftServerEnabled_def
      isV4Enabled_def isBgpPeeringEnabled_def isSegmentRoutingEnabled_def)





lemma bgp_peering_accepted_irrelevant [simp]:
  "bgp_peering_accepted env (c\<lparr>eor_time_s := x\<rparr>) = bgp_peering_accepted env c"
  by (simp add: bgp_peering_accepted_def)

lemma validateSections_Inr:
  assumes "validateSections env K this = Inr final"
  shows "\<exists>this1 this2.
      first_error
         [checkGlobals (m_config this),
          checkKvStoreConfig K (kvstore_config (m_config this)),
          checkDecisionConfig (decision_config (m_config this)),
          checkSparkConfig (spark_config (m_config this)),
          checkMonitorConfig (monitor_config (m_config this)),
          checkLinkMonitorConfig (link_monitor_config (m_config this)),
          checkSegmentRoutingConfig env (m_config this)] = Inr ()
    \<and> (if isPrefixAllocationEnabled (m_config this) then
              (if length (m_areaConfigs this) > 1 then
                 Inl (InvalidArgument ''prefix_allocation only support single area config'')
               else checkPrefixAllocationConfig env this)
            else Inr this) = Inr this1
    \<and> checkVipServiceConfig (m_config this1) = Inr ()
    \<and> checkBgpPeeringConfig env this1 = Inr this2
    \<and> (if isSecureThriftServerEnabled (m_config this2)
            then checkThriftServerConfig env (m_config this2) else Inr ()) = Inr ()
    \<and> final = (if eor_time_s (m_config this2) = None
               then this2\<lparr>m_config := (m_config this2)
                      \<lparr>eor_time_s := Some (3 * keepalive_time_s (spark_config (m_config this2)))\<rparr>\<rparr>
               else this2)"
  using assms unfolding validateSections_def Let_def
  by (simp only: split: sum.splits) auto


lemma populateAreaConfig_areas:
  assumes "populateAreaConfig env K this = Some (Inr this1)"
  shows "list_all (\<lambda>a. neighbor_regexes a \<noteq> []
            \<and> area_accepted env (propagationPolicy (m_config this)) a) (areas (m_config this1))
     \<and> distinct (map area_id (areas (m_config this1)))
     \<and> (m_areaConfigs this = [] \<longrightarrow>
           map fst (m_areaConfigs this1) = map area_id (areas (m_config this1)))
     \<and> (\<exists>as. m_config this1 = (m_config this)\<lparr>areas := as\<rparr>)
     \<and> m_prefixAllocationParams this1 = m_prefixAllocationParams this"
proof -
  let ?c = "with_default_area K (m_config this)"
  let ?pol = "propagationPolicy (m_config this)"
  from populateAreaConfig_Inr [OF assms] obtain acs' where
    p: "populateAreas env ?pol (areas ?c) [] (m_areaConfigs this)
          = Some (Inr (map match_all_default (areas ?c), acs'))"
    and t: "this1 = this\<lparr>m_config := ?c\<lparr>areas := map match_all_default (areas ?c)\<rparr>,
         m_areaConfigs := acs'\<rparr>"
    by blast
  have ar: "areas (m_config this1) = map match_all_default (areas ?c)"
    and acs: "m_areaConfigs this1 = acs'"
    and pp: "m_prefixAllocationParams this1 = m_prefixAllocationParams this"
    using t by simp_all
  have ids: "map area_id (areas (m_config this1)) = map area_id (areas ?c)"
    using ar by (simp add: comp_def)
  note r = populateAreas_Inr [OF p]
  from r have acc: "list_all (area_accepted env ?pol) (areas (m_config this1))"
    using ar by simp
  have "neighbor_regexes (match_all_default x) \<noteq> []" for x
    by (simp add: match_all_default_def)
  then have ne: "list_all (\<lambda>a. neighbor_regexes a \<noteq> []) (areas (m_config this1))"
    using ar by (simp add: list_all_iff)
  have 1: "list_all (\<lambda>a. neighbor_regexes a \<noteq> [] \<and> area_accepted env ?pol a)
      (areas (m_config this1))"
    using acc ne by (simp add: list_all_iff)
  have 2: "distinct (map area_id (areas (m_config this1)))" using r ids by simp
  have 3: "map fst (m_areaConfigs this1) = map area_id (areas (m_config this1))"
    if "m_areaConfigs this = []"
    using populateAreas_keys [OF p] that ids acs by simp
  have "?c = (m_config this)\<lparr>areas := areas ?c\<rparr>"
    by (simp add: with_default_area_def)
  then have "m_config this1 = (m_config this)\<lparr>areas := map match_all_default (areas ?c)\<rparr>"
    using t by (simp add: with_default_area_def)
  then have 4: "\<exists>as. m_config this1 = (m_config this)\<lparr>areas := as\<rparr>" by blast
  from 1 2 3 4 pp show ?thesis by blast
qed




subsection \<open>Claims about the KvStore section\<close>

lemma new_Config_kvstore:
  assumes "new_Config env K configFile = Some (Inr cfg)"
  shows "\<exists>contents parsed. readFileToString env configFile = Some contents
     \<and> deserialize env contents = Inr parsed
     \<and> checkKvStoreConfig K (kvstore_config parsed) = Inr ()"
proof -
  from assms obtain contents parsed where
    r: "readFileToString env configFile = Some contents"
    and ds: "deserialize env contents = Inr parsed"
    and p: "populateInternalDb env K
            \<lparr>m_config = parsed, m_areaConfigs = [], m_prefixAllocationParams = None\<rparr>
          = Some (Inr cfg)"
    by (auto simp: new_Config_def split: option.splits sum.splits)
  let ?obj = "\<lparr>m_config = parsed, m_areaConfigs = [], m_prefixAllocationParams = None\<rparr>"
  from p obtain this1 where
    a: "populateAreaConfig env K ?obj = Some (Inr this1)"
    and s: "validateSections env K this1 = Inr cfg"
    by (auto simp: populateInternalDb_def split: option.splits sum.splits)
  from populateAreaConfig_areas [OF a] obtain as where
    "m_config this1 = (m_config ?obj)\<lparr>areas := as\<rparr>" by auto
  then have k: "kvstore_config (m_config this1) = kvstore_config parsed" by simp
  from validateSections_Inr [OF s]
  have "checkKvStoreConfig K (kvstore_config (m_config this1)) = Inr ()"
    by (auto simp: first_error_Inr)
  with k r ds show ?thesis by simp
qed

lemma example_file:
  "readFileToString example_env ''/etc/openr.conf'' = Some ''{}''
   \<and> deserialize example_env ''{}'' = Inr example_config"
  by (simp add: example_env_def)

lemma example_new_Config:
  "\<exists>cfg. new_Config example_env example_constants ''/etc/openr.conf'' = Some (Inr cfg)"
proof -
  have "(case new_Config example_env example_constants ''/etc/openr.conf'' of
      Some (Inr t) \<Rightarrow> True | _ \<Rightarrow> False)"
    by code_simp
  then show ?thesis by (auto split: option.splits sum.splits)
qed

text \<open>
  C4. With the flood rate set, \<open>checkKvStoreConfig\<close> throws \<open>std::out_of_range\<close> from
  one of the two flood-rate checks whenever \<open>flood_msg_per_sec\<close> or
  \<open>flood_msg_burst_size\<close> is at most 0. With the flood rate unset, or both values
  positive, neither flood-rate check throws: the result is that of the check of
  \<open>key_ttl_ms\<close> alone. The constructor returns an object only for a configuration whose
  flood rate, if set, has both values positive.
\<close>

theorem checkKvStoreConfig_flood_rate:
  "(flood_rate c = Some fr
      \<and> (sint (flood_msg_per_sec fr) \<le> 0 \<or> sint (flood_msg_burst_size fr) \<le> 0)
     \<longrightarrow> is_out_of_range (checkKvStoreConfig K c)
         \<and> (\<exists>e \<in> flood_rate_errors. checkKvStoreConfig K c = Inl e))
   \<and> (flood_rate c = None
        \<or> (flood_rate c = Some fr \<and> 0 < sint (flood_msg_per_sec fr)
            \<and> 0 < sint (flood_msg_burst_size fr))
     \<longrightarrow> (\<forall>e \<in> flood_rate_errors. checkKvStoreConfig K c \<noteq> Inl e)
         \<and> checkKvStoreConfig K c =
             (if key_ttl_ms c = kTtlInfinity K
              then Inl (OutOfRange ''kvstore key_ttl_ms should be a finite number'')
              else Inr ()))
   \<and> (new_Config env K configFile = Some (Inr cfg)
       \<and> readFileToString env configFile = Some contents
       \<and> deserialize env contents = Inr parsed
       \<and> flood_rate (kvstore_config parsed) = Some fr
     \<longrightarrow> 0 < sint (flood_msg_per_sec fr) \<and> 0 < sint (flood_msg_burst_size fr))"
proof (intro conjI impI)
  assume a: "flood_rate c = Some fr
      \<and> (sint (flood_msg_per_sec fr) \<le> 0 \<or> sint (flood_msg_burst_size fr) \<le> 0)"
  then show "\<exists>e \<in> flood_rate_errors. checkKvStoreConfig K c = Inl e"
    by (simp add: checkKvStoreConfig_flood_bad)
  then show "is_out_of_range (checkKvStoreConfig K c)"
    by (auto simp: flood_rate_errors_def)
next
  assume "flood_rate c = None
        \<or> (flood_rate c = Some fr \<and> 0 < sint (flood_msg_per_sec fr)
            \<and> 0 < sint (flood_msg_burst_size fr))"
  then have g: "flood_rate c = None \<or>
      (\<exists>fr. flood_rate c = Some fr \<and> 0 < sint (flood_msg_per_sec fr)
         \<and> 0 < sint (flood_msg_burst_size fr))" by blast
  show "checkKvStoreConfig K c =
             (if key_ttl_ms c = kTtlInfinity K
              then Inl (OutOfRange ''kvstore key_ttl_ms should be a finite number'')
              else Inr ())"
    by (rule checkKvStoreConfig_flood_good [OF g])
  then show "\<forall>e \<in> flood_rate_errors. checkKvStoreConfig K c \<noteq> Inl e"
    by (simp add: flood_rate_errors_def)
next
  assume h: "new_Config env K configFile = Some (Inr cfg)
       \<and> readFileToString env configFile = Some contents
       \<and> deserialize env contents = Inr parsed
       \<and> flood_rate (kvstore_config parsed) = Some fr"
  with new_Config_kvstore [of env K configFile cfg]
  have ok: "checkKvStoreConfig K (kvstore_config parsed) = Inr ()" by auto
  have "\<not> (sint (flood_msg_per_sec fr) \<le> 0 \<or> sint (flood_msg_burst_size fr) \<le> 0)"
  proof
    assume "sint (flood_msg_per_sec fr) \<le> 0 \<or> sint (flood_msg_burst_size fr) \<le> 0"
    with h checkKvStoreConfig_flood_bad [of "kvstore_config parsed" fr K] ok
    show False by auto
  qed
  then show "0 < sint (flood_msg_per_sec fr)" and "0 < sint (flood_msg_burst_size fr)"
    by auto
qed

theorem checkKvStoreConfig_flood_rate_witness:
  "flood_rate (example_kvstore\<lparr>flood_rate :=
        Some \<lparr>flood_msg_per_sec = 1024, flood_msg_burst_size = 0\<rparr>\<rparr>)
      = Some \<lparr>flood_msg_per_sec = 1024, flood_msg_burst_size = 0\<rparr>
   \<and> sint (flood_msg_burst_size \<lparr>flood_msg_per_sec = 1024, flood_msg_burst_size = (0::i32)\<rparr>) \<le> 0
   \<and> is_out_of_range (checkKvStoreConfig example_constants
        (example_kvstore\<lparr>flood_rate :=
           Some \<lparr>flood_msg_per_sec = 1024, flood_msg_burst_size = 0\<rparr>\<rparr>))
   \<and> flood_rate example_kvstore = Some \<lparr>flood_msg_per_sec = 1024, flood_msg_burst_size = 512\<rparr>
   \<and> checkKvStoreConfig example_constants example_kvstore = Inr ()
   \<and> (\<exists>cfg. new_Config example_env example_constants ''/etc/openr.conf'' = Some (Inr cfg))
   \<and> flood_rate (kvstore_config example_config)
        = Some \<lparr>flood_msg_per_sec = 1024, flood_msg_burst_size = 512\<rparr>
   \<and> 0 < sint (flood_msg_per_sec \<lparr>flood_msg_per_sec = (1024::i32), flood_msg_burst_size = 512\<rparr>)"
proof -
  let ?bad = "\<lparr>flood_msg_per_sec = 1024, flood_msg_burst_size = (0::i32)\<rparr>"
  let ?good = "\<lparr>flood_msg_per_sec = (1024::i32), flood_msg_burst_size = (512::i32)\<rparr>"
  let ?c = "example_kvstore\<lparr>flood_rate := Some ?bad\<rparr>"
  have b1: "flood_rate ?c = Some ?bad" by simp
  have b2: "sint (flood_msg_burst_size ?bad) \<le> 0" by simp
  have b3: "is_out_of_range (checkKvStoreConfig example_constants ?c)"
    using checkKvStoreConfig_flood_rate [of ?c ?bad example_constants] b1 b2 by blast
  have g1: "flood_rate example_kvstore = Some ?good" by (simp add: example_kvstore_def)
  have g2: "0 < sint (flood_msg_per_sec ?good)" by simp
  have g3: "0 < sint (flood_msg_burst_size ?good)" by simp
  have g4: "key_ttl_ms example_kvstore \<noteq> kTtlInfinity example_constants"
    by (simp add: example_kvstore_def example_constants_def)
  have g5: "checkKvStoreConfig example_constants example_kvstore = Inr ()"
    using checkKvStoreConfig_flood_rate [of example_kvstore ?good example_constants]
      g1 g2 g3 g4 by simp
  from example_new_Config obtain cfg where
    n: "new_Config example_env example_constants ''/etc/openr.conf'' = Some (Inr cfg)" ..
  have k: "flood_rate (kvstore_config example_config) = Some ?good"
    by (simp add: example_config_def example_kvstore_def)
  from checkKvStoreConfig_flood_rate
    [of _ ?good example_constants example_env "''/etc/openr.conf''" cfg "''{}''" example_config]
    n example_file k
  have p: "0 < sint (flood_msg_per_sec ?good)" by blast
  from b1 b2 b3 g1 g5 example_new_Config k p show ?thesis
    apply -
    apply (intro conjI)
    apply assumption+
    done
qed

text \<open>
  C5. If \<open>key_ttl_ms\<close> equals the sentinel \<open>kTtlInfinity\<close>, \<open>checkKvStoreConfig\<close> throws
  \<open>std::out_of_range\<close>: the error of the TTL check, unless a flood-rate check has thrown
  before it. The constructor returns no object for such a configuration.
\<close>

theorem checkKvStoreConfig_infinite_ttl:
  "(key_ttl_ms c = kTtlInfinity K \<longrightarrow>
      is_out_of_range (checkKvStoreConfig K c)
      \<and> (checkKvStoreConfig K c
            = Inl (OutOfRange ''kvstore key_ttl_ms should be a finite number'')
         \<or> (\<exists>e \<in> flood_rate_errors. checkKvStoreConfig K c = Inl e)))
   \<and> (new_Config env K configFile = Some (Inr cfg)
       \<and> readFileToString env configFile = Some contents
       \<and> deserialize env contents = Inr parsed
     \<longrightarrow> key_ttl_ms (kvstore_config parsed) \<noteq> kTtlInfinity K)"
proof (intro conjI impI)
  assume "key_ttl_ms c = kTtlInfinity K"
  then have r: "checkKvStoreConfig K c
            = Inl (OutOfRange ''kvstore key_ttl_ms should be a finite number'')
         \<or> (\<exists>e \<in> flood_rate_errors. checkKvStoreConfig K c = Inl e)"
    by (auto simp: checkKvStoreConfig_def flood_rate_errors_def split: option.splits)
  then show "checkKvStoreConfig K c
            = Inl (OutOfRange ''kvstore key_ttl_ms should be a finite number'')
         \<or> (\<exists>e \<in> flood_rate_errors. checkKvStoreConfig K c = Inl e)" .
  from r show "is_out_of_range (checkKvStoreConfig K c)"
    by (auto simp: flood_rate_errors_def)
next
  assume h: "new_Config env K configFile = Some (Inr cfg)
       \<and> readFileToString env configFile = Some contents
       \<and> deserialize env contents = Inr parsed"
  with new_Config_kvstore [of env K configFile cfg]
  have ok: "checkKvStoreConfig K (kvstore_config parsed) = Inr ()" by auto
  then show "key_ttl_ms (kvstore_config parsed) \<noteq> kTtlInfinity K"
    by (auto simp: checkKvStoreConfig_def split: option.splits if_splits)
qed

theorem checkKvStoreConfig_infinite_ttl_witness:
  "key_ttl_ms (example_kvstore\<lparr>key_ttl_ms := - 2147483648\<rparr>) = kTtlInfinity example_constants
   \<and> is_out_of_range (checkKvStoreConfig example_constants
        (example_kvstore\<lparr>key_ttl_ms := - 2147483648\<rparr>))
   \<and> (\<exists>cfg. new_Config example_env example_constants ''/etc/openr.conf'' = Some (Inr cfg))
   \<and> readFileToString example_env ''/etc/openr.conf'' = Some ''{}''
   \<and> deserialize example_env ''{}'' = Inr example_config
   \<and> key_ttl_ms (kvstore_config example_config) \<noteq> kTtlInfinity example_constants"
proof -
  let ?c = "example_kvstore\<lparr>key_ttl_ms := - 2147483648\<rparr>"
  have h: "key_ttl_ms ?c = kTtlInfinity example_constants"
    by (simp add: example_constants_def)
  from checkKvStoreConfig_infinite_ttl [of ?c example_constants] h
  have o: "is_out_of_range (checkKvStoreConfig example_constants ?c)" by blast
  from example_new_Config obtain cfg where
    n: "new_Config example_env example_constants ''/etc/openr.conf'' = Some (Inr cfg)" ..
  from checkKvStoreConfig_infinite_ttl
    [of _ example_constants example_env "''/etc/openr.conf''" cfg "''{}''" example_config]
    n example_file
  have f: "key_ttl_ms (kvstore_config example_config) \<noteq> kTtlInfinity example_constants"
    by blast
  from h o example_new_Config example_file f show ?thesis
    apply -
    apply (intro conjI)
    apply (assumption | erule conjunct1 | erule conjunct2)+
    done
qed

end
